theory Spec2Isabelle
  imports Complex_Main "HOL-Library.Multiset"
begin

section \<open>OpenFOAM hardware check: the bottleneck estimator\<close>

text \<open>
  The repository holds two variants of one script: \<^verbatim>\<open>hardware_checker.py\<close> (a flat core
  count) and \<^verbatim>\<open>ofhc.py\<close> (processors times cores per processor). Both are embedded here.
  Definitions of \<^verbatim>\<open>hardware_checker.py\<close> keep the source's names; those of \<^verbatim>\<open>ofhc.py\<close>
  carry the prefix \<open>ofhc_\<close>. \<^verbatim>\<open>checked_requirements\<close> is the same text in both files and
  is embedded once.

  Numbers: the scripts compute with Python's \<^verbatim>\<open>int\<close> and \<^verbatim>\<open>float\<close>, and every quotient
  is a true division \<^verbatim>\<open>/\<close>. The embedding computes in \<^typ>\<open>real\<close>: the ratios, the marks
  and the formatted fields are those of exact arithmetic, so the rounding error of binary
  floating point in them is outside the model. The one place where a rounding error in
  the last place changes what is printed by a whole unit is the advisory of the core-count
  estimator, whose number goes through \<^verbatim>\<open>round\<close>; there the three quotients are rounded
  to IEEE double precision, as the interpreter does. Numbers beyond the range of a double
  (for which Python raises \<^verbatim>\<open>OverflowError\<close>, or computes with infinities), subnormal
  numbers and NaN are outside the model throughout. What the model keeps of Python's
  division is its failure: a zero divisor raises \<^verbatim>\<open>ZeroDivisionError\<close>, for \<^verbatim>\<open>int\<close> and
  \<^verbatim>\<open>float\<close> alike.
\<close>

subsection \<open>Python primitives\<close>

datatype py_error = ZeroDivisionError

definition py_div :: "real \<Rightarrow> real \<Rightarrow> py_error + real" where
  "py_div a b = (if b = 0 then Inl ZeroDivisionError else Inr (a / b))"

text \<open>\<^verbatim>\<open>round(x)\<close> with one argument: the nearest integer, a tie going to the even one.\<close>

definition py_round :: "real \<Rightarrow> int" where
  "py_round x =
     (let f = \<lfloor>x\<rfloor>; d = x - of_int f
      in if d < 1 / 2 then f
         else if 1 / 2 < d then f + 1
         else if even f then f else f + 1)"

text \<open>
  Rounding to double precision, to nearest with ties to even: a positive \<open>x\<close> with
  \<open>2\<^sup>e \<le> x < 2\<^sup>e\<^sup>+\<^sup>1\<close> is rounded to a multiple of \<open>2\<^sup>e\<^sup>-\<^sup>5\<^sup>2\<close>. \<^verbatim>\<open>n.bit_length()\<close> is the number
  of binary digits of \<open>n\<close>.
\<close>

fun bit_length :: "nat \<Rightarrow> nat" where
  "bit_length n = (if n = 0 then 0 else Suc (bit_length (n div 2)))"

declare bit_length.simps [simp del]

definition float_exponent :: "real \<Rightarrow> int" where
  "float_exponent x =
     (if 1 \<le> x then int (bit_length (nat \<lfloor>x\<rfloor>)) - 1
      else let b = int (bit_length (nat \<lfloor>1 / x\<rfloor>))
           in if x = 2 powi (1 - b) then 1 - b else - b)"

definition fl :: "real \<Rightarrow> real" where
  "fl x =
     (if x = 0 then 0
      else let ulp = 2 powi (float_exponent \<bar>x\<bar> - 52)
           in sgn x * of_int (py_round (\<bar>x\<bar> / ulp)) * ulp)"

text \<open>A quotient computed in double precision.\<close>

definition py_float_div :: "real \<Rightarrow> real \<Rightarrow> py_error + real" where
  "py_float_div a b = (if b = 0 then Inl ZeroDivisionError else Inr (fl (a / b)))"

text \<open>\<^verbatim>\<open>str(n)\<close> for a natural number and for an integer.\<close>

fun digits_of :: "nat \<Rightarrow> string" where
  "digits_of n =
     (if n < 10 then [''0123456789'' ! n]
      else digits_of (n div 10) @ [''0123456789'' ! (n mod 10)])"

declare digits_of.simps [simp del]

definition py_str_int :: "int \<Rightarrow> string" where
  "py_str_int i = (if i < 0 then ''-'' @ digits_of (nat (- i)) else digits_of (nat i))"

text \<open>The \<^verbatim>\<open>,\<close> option of the format mini-language: a comma between groups of three digits.\<close>

fun commas :: "string \<Rightarrow> string" where
  "commas ds =
     (if length ds \<le> 3 then ds
      else commas (take (length ds - 3) ds) @ '','' @ drop (length ds - 3) ds)"

declare commas.simps [simp del]

definition zero_pad :: "nat \<Rightarrow> string \<Rightarrow> string" where
  "zero_pad w ds = replicate (w - length ds) (CHR ''0'') @ ds"

text \<open>
  \<^verbatim>\<open>f"{val:,.{digits}f}"\<close>: fixed notation with \<open>digits\<close> decimals, the last one rounded
  to nearest (ties to even), the sign kept also when the rounded magnitude is zero.
\<close>

definition format_fixed :: "real \<Rightarrow> nat \<Rightarrow> string" where
  "format_fixed val digits =
     (let n = nat (py_round (\<bar>val\<bar> * 10 ^ digits));
          int_part = n div 10 ^ digits;
          frac_part = n mod 10 ^ digits
      in (if val < 0 then ''-'' else '''')
         @ commas (digits_of int_part)
         @ (if digits = 0 then '''' else ''.'' @ zero_pad digits (digits_of frac_part)))"

text \<open>
  \<^verbatim>\<open>len(s)\<close> counts code points. Strings are UTF-8 byte lists here, so the continuation
  bytes \<open>0x80..0xBF\<close> are not counted. \<^verbatim>\<open>f"{s:<w}"\<close> pads on the right and never cuts.
\<close>

definition py_len :: "string \<Rightarrow> nat" where
  "py_len s = length (filter (\<lambda>c. \<not> (128 \<le> (of_char c :: nat) \<and> (of_char c :: nat) < 192)) s)"

definition ljust :: "nat \<Rightarrow> string \<Rightarrow> string" where
  "ljust w s = s @ replicate (w - py_len s) (CHR '' '')"

text \<open>
  \<^verbatim>\<open>sorted(xs, key=k)\<close> is a stable ascending sort, and the result of a stable sort
  is determined by its input; \<^const>\<open>sort_key\<close> is the stable sort of the HOL library.
\<close>

definition py_sorted :: "('a \<Rightarrow> real) \<Rightarrow> 'a list \<Rightarrow> 'a list" where
  "py_sorted k xs = sort_key k xs"

subsection \<open>Process state\<close>

text \<open>
  What a call can see besides its arguments: the module's global names (the constants of
  lines 7 to 14/15 of either file) and the standard output, one entry per \<^verbatim>\<open>print\<close>.
\<close>

record py_state =
  globals :: "(string \<times> real) list"
  stdout :: "string list"

definition print :: "string \<Rightarrow> py_state \<Rightarrow> py_state" where
  "print line s = s\<lparr>stdout := stdout s @ [line]\<rparr>"

definition hardware_checker_module :: py_state where
  "hardware_checker_module =
     \<lparr>globals = [(''num_cells'', 10000000), (''NUM_CELLS'', 10000000),
                 (''RAM_CAPACITY_GB'', 64), (''NUM_RAM_CHANNELS'', 4),
                 (''RAM_SPEED_MTS'', 2700), (''NUM_CPU_CORES'', 20),
                 (''CPU_SPEED_GHZ'', 2), (''CPU_L3_CACHE_CAPACITY_MB'', 64),
                 (''GPU_VRAM_GB'', 0)],
      stdout = []\<rparr>"

definition ofhc_module :: py_state where
  "ofhc_module =
     \<lparr>globals = [(''num_cells'', 10000000), (''NUM_CELLS'', 10000000),
                 (''RAM_CAPACITY_GB'', 64), (''NUM_RAM_CHANNELS'', 4),
                 (''RAM_SPEED_MTS'', 2133), (''NUM_PROCESSORS'', 2),
                 (''CPU_SPEED_GHZ'', 11 / 5), (''NUM_CPU_CORES_PER_PROCESSOR'', 10),
                 (''L3_CACHE_CAPACITY_MB_PER_PROCESSOR'', 25), (''GPU_VRAM_GB'', 0)],
      stdout = []\<rparr>"

subsection \<open>The ratio scorer\<close>

text \<open>
  The two marks are \<^verbatim>\<open>'[' U+2717 ']'\<close> (insufficient) and \<^verbatim>\<open>'[' U+2713 ']'\<close>
  (sufficient), written here as their UTF-8 bytes.
\<close>

definition cross_mark :: string where
  "cross_mark = [CHR ''['', CHR 0xE2, CHR 0x9C, CHR 0x97, CHR '']'']"

definition check_mark :: string where
  "check_mark = [CHR ''['', CHR 0xE2, CHR 0x9C, CHR 0x93, CHR '']'']"

text \<open>
  The nested \<^verbatim>\<open>fmt\<close> of \<^verbatim>\<open>checked_requirements\<close>. Every value that reaches it is a
  number, so the branch \<^verbatim>\<open>return str(val)\<close> is never taken and is left out.
\<close>

definition fmt :: "real \<Rightarrow> string" where
  "fmt val =
     (if val = 0 then ''0''
      else let digits = 3 - int (length (digits_of (nat \<lfloor>\<bar>val\<bar>\<rfloor>)));
               digits = max digits 0
           in format_fixed val (nat digits))"

text \<open>The six-tuple that \<^verbatim>\<open>checked_requirements\<close> returns, in the source's order.\<close>

record requirement =
  ratio :: real
  ratio_fmt :: string
  title :: string
  actual_fmt :: string
  target_fmt :: string
  mark :: string

definition checked_requirements :: "string \<Rightarrow> real \<Rightarrow> real \<Rightarrow> py_error + requirement" where
  "checked_requirements ttl numerator denominator =
     (case py_div numerator denominator of
        Inl e \<Rightarrow> Inl e
      | Inr r \<Rightarrow>
          Inr \<lparr>ratio = r,
               ratio_fmt = py_str_int (py_round (r * 100)) @ '' %'',
               title = ttl,
               actual_fmt = fmt numerator,
               target_fmt = fmt denominator,
               mark = (if r < 1 then cross_mark else check_mark)\<rparr>)"

subsection \<open>The estimators of \<^verbatim>\<open>hardware_checker.py\<close>\<close>

text \<open>
  \<^verbatim>\<open>estimate_bottleneck_cpu_count\<close> is the one estimator with an effect: it prints the
  advisory. Its two quotients by arguments can raise; the quotient inside the advisory is
  taken only when its divisor exceeds 1, and \<^verbatim>\<open>max_cells_per_core\<close> is the constant
  100000, so these two cannot. The three quotients that lead to the advisory are computed
  in double precision.
\<close>

definition estimate_bottleneck_cpu_count ::
  "real \<Rightarrow> real \<Rightarrow> py_state \<Rightarrow> (py_error + requirement) \<times> py_state" where
  "estimate_bottleneck_cpu_count num_cells num_cpu_cores s =
     (let min_cells_per_core = 50000 in
      case py_float_div num_cells num_cpu_cores of
        Inl e \<Rightarrow> (Inl e, s)
      | Inr actual_cells_per_core \<Rightarrow>
          (case py_float_div min_cells_per_core actual_cells_per_core of
             Inl e \<Rightarrow> (Inl e, s)
           | Inr min_ratio_cpu_count \<Rightarrow>
               (let s' = (if min_ratio_cpu_count > 1
                          then print (''Do not use all cores for computing. Limit the simulation to ''
                                      @ py_str_int (py_round (fl (num_cells / min_ratio_cpu_count)))) s
                          else s);
                    max_cells_per_core = 100000;
                    required_num_cores = num_cells / max_cells_per_core
                in (checked_requirements ''CPU Cores'' num_cpu_cores required_num_cores, s'))))"

definition estimate_bottleneck_cpu_speed :: "real \<Rightarrow> py_error + requirement" where
  "estimate_bottleneck_cpu_speed cpu_speed_ghz =
     (let reference_ghz = 3
      in checked_requirements ''CPU Clock-Speed (GHZ)'' cpu_speed_ghz reference_ghz)"

definition estimate_bottleneck_cpu_l3_cache :: "real \<Rightarrow> real \<Rightarrow> py_error + requirement" where
  "estimate_bottleneck_cpu_l3_cache num_cores cpu_l3_cache_capacity_mb =
     (let reference_mb_per_core = 2;
          required_cache_mb = num_cores * reference_mb_per_core
      in checked_requirements ''CPU L3 Cache (MB)'' cpu_l3_cache_capacity_mb required_cache_mb)"

definition estimate_bottleneck_ram_capacity :: "real \<Rightarrow> real \<Rightarrow> py_error + requirement" where
  "estimate_bottleneck_ram_capacity num_cells actual_ram_capacity_gb =
     (let min_gb_ram_per_million_cells = 2;
          required_ram_capacity_gb = (num_cells / 1000000) * min_gb_ram_per_million_cells
      in checked_requirements ''RAM Capacity (GB)'' actual_ram_capacity_gb required_ram_capacity_gb)"

definition estimate_bottleneck_ram_channels :: "real \<Rightarrow> real \<Rightarrow> py_error + requirement" where
  "estimate_bottleneck_ram_channels num_cores num_ram_channels =
     (let max_cores_per_ram_channel = 4 in
      case py_div num_cores num_ram_channels of
        Inl e \<Rightarrow> Inl e
      | Inr cores_per_channel \<Rightarrow>
          checked_requirements ''RAM Channels'' max_cores_per_ram_channel cores_per_channel)"

definition estimate_bottleneck_ram_bandwidth :: "real \<Rightarrow> real \<Rightarrow> real \<Rightarrow> py_error + requirement" where
  "estimate_bottleneck_ram_bandwidth num_cpu_cores ram_speed_mts num_ram_channels =
     (let required_bandwidth_per_core_gbs = 2;
          bytes_per_transfer = 8;
          theoretical_bandwidth_gbs =
            ram_speed_mts * 1000000 * bytes_per_transfer * num_ram_channels / 1000000000;
          bandwidth_efficiency = 7 / 10;
          actual_bandwidth_gbs = theoretical_bandwidth_gbs * bandwidth_efficiency;
          required_bandwidth_gbs = num_cpu_cores * required_bandwidth_per_core_gbs
      in checked_requirements ''RAM Bandwidth (GB/s)'' actual_bandwidth_gbs required_bandwidth_gbs)"

definition estimate_gpu_vram_recommendations :: "real \<Rightarrow> real \<Rightarrow> py_error + requirement" where
  "estimate_gpu_vram_recommendations num_cells gpu_vram_gb =
     (let recommended_vram_gb_per_million_cells = 1 / 12;
          recommended_vram_gb = num_cells / 1000000 * recommended_vram_gb_per_million_cells
      in checked_requirements ''Virtual RAM (GB)'' gpu_vram_gb recommended_vram_gb)"

subsection \<open>The entry point of \<^verbatim>\<open>hardware_checker.py\<close>\<close>

text \<open>
  \<^verbatim>\<open>estimate_storage_requirements\<close> is called from nowhere in either file, and the
  \<^verbatim>\<open>__main__\<close> block only passes the module constants to the entry point; neither is
  embedded.

  The list display of lines 115 to 122 calls the seven estimators from left to right; the
  first exception ends the evaluation, with the output printed so far left in place.
\<close>

definition functions_list ::
  "real \<Rightarrow> real \<Rightarrow> real \<Rightarrow> real \<Rightarrow> real \<Rightarrow> real \<Rightarrow> real \<Rightarrow> real \<Rightarrow> py_state
   \<Rightarrow> (py_error + requirement list) \<times> py_state" where
  "functions_list num_cells ram_capacity_gb num_ram_channels ram_speed_mts num_cpu_cores
                  cpu_speed_ghz cpu_l3_cache_capacity_mb gpu_vram_gb s =
     (case estimate_bottleneck_ram_capacity num_cells ram_capacity_gb of
        Inl e \<Rightarrow> (Inl e, s)
      | Inr f1 \<Rightarrow>
     (case estimate_bottleneck_ram_channels num_cpu_cores num_ram_channels of
        Inl e \<Rightarrow> (Inl e, s)
      | Inr f2 \<Rightarrow>
     (case estimate_bottleneck_ram_bandwidth num_cpu_cores ram_speed_mts num_ram_channels of
        Inl e \<Rightarrow> (Inl e, s)
      | Inr f3 \<Rightarrow>
     (case estimate_bottleneck_cpu_count num_cells num_cpu_cores s of
        (Inl e, s') \<Rightarrow> (Inl e, s')
      | (Inr f4, s') \<Rightarrow>
     (case estimate_bottleneck_cpu_speed cpu_speed_ghz of
        Inl e \<Rightarrow> (Inl e, s')
      | Inr f5 \<Rightarrow>
     (case estimate_bottleneck_cpu_l3_cache num_cpu_cores cpu_l3_cache_capacity_mb of
        Inl e \<Rightarrow> (Inl e, s')
      | Inr f6 \<Rightarrow>
     (case estimate_gpu_vram_recommendations num_cells gpu_vram_gb of
        Inl e \<Rightarrow> (Inl e, s')
      | Inr f7 \<Rightarrow> (Inr [f1, f2, f3, f4, f5, f6, f7], s'))))))))"

text \<open>Line 124: the ranking.\<close>

definition rank :: "requirement list \<Rightarrow> requirement list" where
  "rank functions = py_sorted ratio functions"

text \<open>Lines 126 and 127: one printed row for each ranked tuple.\<close>

definition row :: "requirement \<Rightarrow> string" where
  "row f = ljust 22 (title f) @ '' Actual: '' @ ljust 10 (actual_fmt f)
           @ '' Target: '' @ ljust 10 (target_fmt f)
           @ '' '' @ ljust 5 (ratio_fmt f) @ '' '' @ ljust 5 (mark f)"

definition print_rows :: "requirement list \<Rightarrow> py_state \<Rightarrow> py_state" where
  "print_rows functions s = foldl (\<lambda>s f. print (row f) s) s functions"

definition estimate_cfd_requirements ::
  "real \<Rightarrow> real \<Rightarrow> real \<Rightarrow> real \<Rightarrow> real \<Rightarrow> real \<Rightarrow> real \<Rightarrow> real \<Rightarrow> py_state
   \<Rightarrow> (py_error + unit) \<times> py_state" where
  "estimate_cfd_requirements num_cells ram_capacity_gb num_ram_channels ram_speed_mts
                             num_cpu_cores cpu_speed_ghz cpu_l3_cache_capacity_mb gpu_vram_gb s =
     (case functions_list num_cells ram_capacity_gb num_ram_channels ram_speed_mts
                          num_cpu_cores cpu_speed_ghz cpu_l3_cache_capacity_mb gpu_vram_gb s of
        (Inl e, s') \<Rightarrow> (Inl e, s')
      | (Inr functions, s') \<Rightarrow> (Inr (), print_rows (rank functions) s'))"

subsection \<open>The estimators and the entry point of \<^verbatim>\<open>ofhc.py\<close>\<close>

text \<open>
  \<^verbatim>\<open>estimate_bottleneck_cpu_speed\<close>, \<^verbatim>\<open>estimate_bottleneck_ram_capacity\<close> and
  \<^verbatim>\<open>estimate_gpu_vram_recommendations\<close> are the same text as in \<^verbatim>\<open>hardware_checker.py\<close>
  and are not repeated. The others take the processor count as well.
\<close>

definition ofhc_estimate_bottleneck_cpu_count ::
  "real \<Rightarrow> real \<Rightarrow> real \<Rightarrow> py_state \<Rightarrow> (py_error + requirement) \<times> py_state" where
  "ofhc_estimate_bottleneck_cpu_count num_cells num_processors num_cpu_cores s =
     (let min_cells_per_core = 50000 in
      case py_float_div num_cells (num_cpu_cores * num_processors) of
        Inl e \<Rightarrow> (Inl e, s)
      | Inr actual_cells_per_core \<Rightarrow>
          (case py_float_div min_cells_per_core actual_cells_per_core of
             Inl e \<Rightarrow> (Inl e, s)
           | Inr min_ratio_cpu_count \<Rightarrow>
               (let s' = (if min_ratio_cpu_count > 1
                          then print (''Do not use all cores for computing. Limit the simulation to ''
                                      @ py_str_int (py_round (fl (num_cells / min_ratio_cpu_count)))) s
                          else s);
                    max_cells_per_core = 100000;
                    required_num_cores = num_cells / max_cells_per_core
                in (checked_requirements ''CPU Cores'' (num_cpu_cores * num_processors)
                      required_num_cores, s'))))"

text \<open>
  The parameters of \<^verbatim>\<open>estimate_bottleneck_cpu_l3_cache\<close> are named
  \<^verbatim>\<open>(num_cpu_cores, num_cores, ...)\<close> in \<^verbatim>\<open>ofhc.py\<close>; the call passes the processor count
  first. Only their product is used.
\<close>

definition ofhc_estimate_bottleneck_cpu_l3_cache :: "real \<Rightarrow> real \<Rightarrow> real \<Rightarrow> py_error + requirement" where
  "ofhc_estimate_bottleneck_cpu_l3_cache num_cpu_cores num_cores cpu_l3_cache_capacity_mb =
     (let reference_mb_per_core = 2;
          required_cache_mb = num_cpu_cores * num_cores * reference_mb_per_core
      in checked_requirements ''CPU L3 Cache (MB)'' cpu_l3_cache_capacity_mb required_cache_mb)"

definition ofhc_estimate_bottleneck_ram_channels :: "real \<Rightarrow> real \<Rightarrow> real \<Rightarrow> py_error + requirement" where
  "ofhc_estimate_bottleneck_ram_channels num_processors num_cores num_ram_channels =
     (let max_cores_per_ram_channel = 4;
          required_channels = (num_cores * num_processors) / max_cores_per_ram_channel
      in checked_requirements ''RAM Channels'' num_ram_channels required_channels)"

definition ofhc_estimate_bottleneck_ram_bandwidth ::
  "real \<Rightarrow> real \<Rightarrow> real \<Rightarrow> real \<Rightarrow> py_error + requirement" where
  "ofhc_estimate_bottleneck_ram_bandwidth num_processors num_cpu_cores ram_speed_mts num_ram_channels =
     (let required_bandwidth_per_core_gbs = 2;
          bytes_per_transfer = 8;
          theoretical_bandwidth_gbs =
            ram_speed_mts * 1000000 * bytes_per_transfer * num_ram_channels / 1000000000;
          bandwidth_efficiency = 7 / 10;
          actual_bandwidth_gbs = theoretical_bandwidth_gbs * bandwidth_efficiency;
          required_bandwidth_gbs = num_processors * num_cpu_cores * required_bandwidth_per_core_gbs
      in checked_requirements ''RAM Bandwidth (GB/s)'' actual_bandwidth_gbs required_bandwidth_gbs)"

definition ofhc_functions_list ::
  "real \<Rightarrow> real \<Rightarrow> real \<Rightarrow> real \<Rightarrow> real \<Rightarrow> real \<Rightarrow> real \<Rightarrow> real \<Rightarrow> real \<Rightarrow> py_state
   \<Rightarrow> (py_error + requirement list) \<times> py_state" where
  "ofhc_functions_list num_cells ram_capacity_gb num_ram_channels ram_speed_mts num_processors
                       num_cpu_cores cpu_speed_ghz cpu_l3_cache_capacity_mb gpu_vram_gb s =
     (case estimate_bottleneck_ram_capacity num_cells ram_capacity_gb of
        Inl e \<Rightarrow> (Inl e, s)
      | Inr f1 \<Rightarrow>
     (case ofhc_estimate_bottleneck_ram_channels num_processors num_cpu_cores num_ram_channels of
        Inl e \<Rightarrow> (Inl e, s)
      | Inr f2 \<Rightarrow>
     (case ofhc_estimate_bottleneck_ram_bandwidth num_processors num_cpu_cores ram_speed_mts
             num_ram_channels of
        Inl e \<Rightarrow> (Inl e, s)
      | Inr f3 \<Rightarrow>
     (case ofhc_estimate_bottleneck_cpu_count num_cells num_processors num_cpu_cores s of
        (Inl e, s') \<Rightarrow> (Inl e, s')
      | (Inr f4, s') \<Rightarrow>
     (case estimate_bottleneck_cpu_speed cpu_speed_ghz of
        Inl e \<Rightarrow> (Inl e, s')
      | Inr f5 \<Rightarrow>
     (case ofhc_estimate_bottleneck_cpu_l3_cache num_processors num_cpu_cores
             cpu_l3_cache_capacity_mb of
        Inl e \<Rightarrow> (Inl e, s')
      | Inr f6 \<Rightarrow>
     (case estimate_gpu_vram_recommendations num_cells gpu_vram_gb of
        Inl e \<Rightarrow> (Inl e, s')
      | Inr f7 \<Rightarrow> (Inr [f1, f2, f3, f4, f5, f6, f7], s'))))))))"

definition ofhc_estimate_cfd_requirements ::
  "real \<Rightarrow> real \<Rightarrow> real \<Rightarrow> real \<Rightarrow> real \<Rightarrow> real \<Rightarrow> real \<Rightarrow> real \<Rightarrow> real \<Rightarrow> py_state
   \<Rightarrow> (py_error + unit) \<times> py_state" where
  "ofhc_estimate_cfd_requirements num_cells ram_capacity_gb num_ram_channels ram_speed_mts
                                  num_processors num_cpu_cores cpu_speed_ghz
                                  cpu_l3_cache_capacity_mb gpu_vram_gb s =
     (case ofhc_functions_list num_cells ram_capacity_gb num_ram_channels ram_speed_mts
                               num_processors num_cpu_cores cpu_speed_ghz
                               cpu_l3_cache_capacity_mb gpu_vram_gb s of
        (Inl e, s') \<Rightarrow> (Inl e, s')
      | (Inr functions, s') \<Rightarrow> (Inr (), print_rows (rank functions) s'))"

subsection \<open>Closed forms\<close>

text \<open>
  Shorthand for the statements below: the tuple that \<^verbatim>\<open>checked_requirements\<close> returns for
  a non-zero divisor, the advisory line, the lines that the core-count estimator prints,
  and the list display of either entry point when no call raises.
\<close>

abbreviation scored :: "string \<Rightarrow> real \<Rightarrow> real \<Rightarrow> requirement" where
  "scored t a d \<equiv>
     \<lparr>ratio = a / d, ratio_fmt = py_str_int (py_round (a / d * 100)) @ '' %'', title = t,
      actual_fmt = fmt a, target_fmt = fmt d,
      mark = (if a / d < 1 then cross_mark else check_mark)\<rparr>"

abbreviation advised :: "real \<Rightarrow> real \<Rightarrow> real" where
  "advised cells total_cores \<equiv> fl (cells / fl (50000 / fl (cells / total_cores)))"

abbreviation advisory :: "real \<Rightarrow> real \<Rightarrow> string" where
  "advisory cells total_cores \<equiv>
     ''Do not use all cores for computing. Limit the simulation to ''
     @ py_str_int (py_round (advised cells total_cores))"

abbreviation advice :: "real \<Rightarrow> real \<Rightarrow> string list" where
  "advice cells total_cores \<equiv>
     (if 1 < fl (50000 / fl (cells / total_cores)) then [advisory cells total_cores] else [])"

abbreviation results :: "real \<Rightarrow> real \<Rightarrow> real \<Rightarrow> real \<Rightarrow> real \<Rightarrow> real \<Rightarrow> real \<Rightarrow> real \<Rightarrow> requirement list" where
  "results cells ram_gb channels mts cores ghz l3 vram \<equiv>
     [scored ''RAM Capacity (GB)'' ram_gb (cells / 1000000 * 2),
      scored ''RAM Channels'' 4 (cores / channels),
      scored ''RAM Bandwidth (GB/s)'' (mts * 1000000 * 8 * channels / 1000000000 * (7 / 10)) (cores * 2),
      scored ''CPU Cores'' cores (cells / 100000),
      scored ''CPU Clock-Speed (GHZ)'' ghz 3,
      scored ''CPU L3 Cache (MB)'' l3 (cores * 2),
      scored ''Virtual RAM (GB)'' vram (cells / 1000000 * (1 / 12))]"

abbreviation ofhc_results :: "real \<Rightarrow> real \<Rightarrow> real \<Rightarrow> real \<Rightarrow> real \<Rightarrow> real \<Rightarrow> real \<Rightarrow> real \<Rightarrow> real \<Rightarrow> requirement list" where
  "ofhc_results cells ram_gb channels mts procs cores ghz l3 vram \<equiv>
     [scored ''RAM Capacity (GB)'' ram_gb (cells / 1000000 * 2),
      scored ''RAM Channels'' channels (cores * procs / 4),
      scored ''RAM Bandwidth (GB/s)'' (mts * 1000000 * 8 * channels / 1000000000 * (7 / 10)) (procs * cores * 2),
      scored ''CPU Cores'' (cores * procs) (cells / 100000),
      scored ''CPU Clock-Speed (GHZ)'' ghz 3,
      scored ''CPU L3 Cache (MB)'' l3 (procs * cores * 2),
      scored ''Virtual RAM (GB)'' vram (cells / 1000000 * (1 / 12))]"

section \<open>Properties\<close>

subsection \<open>Facts used throughout\<close>

lemma checked_requirements_nonzero:
  "d \<noteq> 0 \<Longrightarrow> checked_requirements t a d = Inr (scored t a d)"
  by (simp add: checked_requirements_def py_div_def)

lemma checked_requirements_zero: "checked_requirements t a 0 = Inl ZeroDivisionError"
  by (simp add: checked_requirements_def py_div_def)

lemma marks_differ: "cross_mark \<noteq> check_mark"
  by (simp add: cross_mark_def check_mark_def)

lemma print_rows_eq: "print_rows fs s = s\<lparr>stdout := stdout s @ map row fs\<rparr>"
  by (induction fs arbitrary: s) (simp_all add: print_rows_def print_def)


lemma set_rank: "set (rank fs) = set fs"
  by (simp add: rank_def py_sorted_def)

lemma sorted_rank: "sorted (map ratio (rank fs))"
  by (simp add: rank_def py_sorted_def)

subsection \<open>Rounding to double precision\<close>

lemma bit_length_bounds:
  "0 < n \<Longrightarrow> 2 ^ (bit_length n - 1) \<le> n \<and> n < 2 ^ bit_length n"
proof (induction n rule: bit_length.induct)
  case (1 n)
  show ?case
  proof (cases "n div 2 = 0")
    case True
    with "1.prems" have "n = 1" by presburger
    then show ?thesis by (simp add: bit_length.simps)
  next
    case False
    then have pos: "0 < n div 2" by simp
    from "1.prems" have n0: "n \<noteq> 0" by simp
    from "1.IH" [OF n0 pos]
    have lo: "2 ^ (bit_length (n div 2) - 1) \<le> n div 2"
      and hi: "n div 2 < 2 ^ bit_length (n div 2)" by simp_all
    from pos have bl: "0 < bit_length (n div 2)"
      by (subst bit_length.simps) simp
    have eq: "bit_length n = Suc (bit_length (n div 2))"
      using n0 by (subst bit_length.simps) simp
    from bl have "(2::nat) ^ bit_length (n div 2) = 2 * 2 ^ (bit_length (n div 2) - 1)"
      by (cases "bit_length (n div 2)") simp_all
    with lo have "2 ^ bit_length (n div 2) \<le> 2 * (n div 2)" by simp
    also have "\<dots> \<le> n" by simp
    finally have a: "2 ^ (bit_length n - 1) \<le> n" by (simp add: eq)
    from hi have "Suc (n div 2) \<le> 2 ^ bit_length (n div 2)" by simp
    then have "2 * Suc (n div 2) \<le> 2 * 2 ^ bit_length (n div 2)" by simp
    moreover have "n < 2 * Suc (n div 2)" by presburger
    ultimately have b: "n < 2 ^ bit_length n" by (simp add: eq)
    from a b show ?thesis ..
  qed
qed

lemma py_round_error: "\<bar>of_int (py_round y) - y\<bar> \<le> 1 / 2"
proof -
  have "of_int \<lfloor>y\<rfloor> \<le> y" and "y < of_int \<lfloor>y\<rfloor> + 1" by linarith+
  then show ?thesis by (auto simp: py_round_def Let_def)
qed

lemma two_powi_pred: "0 < n \<Longrightarrow> (2::real) powi (int n - 1) = 2 ^ (n - 1)"
proof (cases n)
  case 0
  assume "0 < n"
  with 0 show ?thesis by simp
next
  case (Suc m)
  have "int (Suc m) - 1 = int m" by simp
  then show ?thesis using Suc by (simp only: power_int_of_nat diff_Suc_1)
qed

lemma two_powi_neg: "(2::real) powi (- int n) = 1 / 2 ^ n"
  by (simp add: power_int_minus divide_inverse)

text \<open>The exponent is that of the power of two at or below \<open>x\<close>.\<close>

lemma float_exponent_lower:
  assumes "0 < x"
  shows "2 powi (float_exponent x) \<le> x"
proof (cases "1 \<le> x")
  case True
  define k where "k = nat \<lfloor>x\<rfloor>"
  from True have kpos: "0 < k" unfolding k_def by simp
  from True have kx: "real k \<le> x" unfolding k_def by simp
  from bit_length_bounds [OF kpos] have lo: "2 ^ (bit_length k - 1) \<le> k" by (rule conjunct1)
  have "real (2 ^ (bit_length k - 1)) \<le> real k" using lo by (rule of_nat_mono)
  then have r: "(2::real) ^ (bit_length k - 1) \<le> real k" by simp
  from bit_length_bounds [OF kpos] have "k < 2 ^ bit_length k" by (rule conjunct2)
  with kpos have blpos: "0 < bit_length k" by (cases "bit_length k") simp_all
  have "2 powi (int (bit_length k) - 1) \<le> real k"
    unfolding two_powi_pred [OF blpos] by (rule r)
  with kx have "2 powi (int (bit_length k) - 1) \<le> x" by linarith
  moreover from True have "float_exponent x = int (bit_length k) - 1"
    unfolding float_exponent_def k_def by (simp only: if_True)
  ultimately show ?thesis by (simp only:)
next
  case False
  define k where "k = nat \<lfloor>1 / x\<rfloor>"
  define b where "b = int (bit_length k)"
  from False assms have inv: "1 < 1 / x" by simp
  then have kpos: "0 < k" unfolding k_def by simp
  have "1 / x < of_int \<lfloor>1 / x\<rfloor> + 1" by linarith
  moreover have "of_int \<lfloor>1 / x\<rfloor> = real k"
  proof -
    from inv have "0 \<le> 1 / x" by linarith
    then have "0 \<le> \<lfloor>1 / x\<rfloor>" by (simp only: zero_le_floor)
    then have "real (nat \<lfloor>1 / x\<rfloor>) = of_int \<lfloor>1 / x\<rfloor>" by (rule of_nat_nat)
    then show ?thesis unfolding k_def by (rule sym)
  qed
  ultimately have a: "1 / x < real k + 1" by (simp only:)
  from bit_length_bounds [OF kpos] have "k < 2 ^ bit_length k" by (rule conjunct2)
  then have "Suc k \<le> 2 ^ bit_length k" by simp
  then have "real (Suc k) \<le> real (2 ^ bit_length k)" by (rule of_nat_mono)
  then have "real k + 1 \<le> 2 ^ bit_length k" by simp
  with a have c: "1 / x < 2 ^ bit_length k" by (rule less_le_trans)
  have p: "(0::real) < 2 ^ bit_length k" by simp
  from c assms p have "1 / 2 ^ bit_length k < x"
    by (simp add: field_simps)
  then have lo: "2 powi (- b) < x"
    unfolding b_def two_powi_neg .
  have fe: "float_exponent x = (if x = 2 powi (1 - b) then 1 - b else - b)"
    using False unfolding float_exponent_def b_def k_def by (simp only: if_False Let_def)
  show ?thesis
  proof (cases "x = 2 powi (1 - b)")
    case True
    with fe have "float_exponent x = 1 - b" by simp
    with True show ?thesis by simp
  next
    case neq: False
    with fe have "float_exponent x = - b" by simp
    with lo show ?thesis by simp
  qed
qed

text \<open>The relative error of one rounding is at most \<open>2\<^sup>-\<^sup>5\<^sup>3\<close>.\<close>

lemma fl_error:
  assumes "0 < x"
  shows "\<bar>fl x - x\<bar> \<le> x / 2 ^ 53"
proof -
  define e where "e = float_exponent x"
  define ulp :: real where "ulp = 2 powi (e - 52)"
  have upos: "0 < ulp" by (simp add: ulp_def)
  from assms have flx: "fl x = of_int (py_round (x / ulp)) * ulp"
    by (simp add: fl_def e_def ulp_def Let_def)
  have "\<bar>of_int (py_round (x / ulp)) - x / ulp\<bar> \<le> 1 / 2" by (rule py_round_error)
  then have "\<bar>of_int (py_round (x / ulp)) - x / ulp\<bar> * ulp \<le> 1 / 2 * ulp"
    using upos by (intro mult_right_mono) simp_all
  moreover have "\<bar>of_int (py_round (x / ulp)) - x / ulp\<bar> * ulp = \<bar>fl x - x\<bar>"
  proof -
    have "\<bar>of_int (py_round (x / ulp)) - x / ulp\<bar> * ulp
            = \<bar>(of_int (py_round (x / ulp)) - x / ulp) * ulp\<bar>"
      using upos by (simp add: abs_mult)
    also have "(of_int (py_round (x / ulp)) - x / ulp) * ulp = fl x - x"
      using upos by (simp add: flx field_simps)
    finally show ?thesis .
  qed
  ultimately have "\<bar>fl x - x\<bar> \<le> ulp / 2" by simp
  also have "ulp / 2 = 2 powi e / 2 ^ 53"
    by (simp add: ulp_def power_int_diff)
  also have "\<dots> \<le> x / 2 ^ 53"
    using float_exponent_lower [OF assms] by (simp add: e_def divide_right_mono)
  finally show ?thesis .
qed

lemma fl_bounds:
  assumes "0 < x"
  shows "x - x / 2 ^ 53 \<le> fl x" and "fl x \<le> x + x / 2 ^ 53"
proof -
  from fl_error [OF assms] have "- (x / 2 ^ 53) \<le> fl x - x" and "fl x - x \<le> x / 2 ^ 53"
    by (simp_all only: abs_le_iff minus_diff_eq) linarith+
  then show "x - x / 2 ^ 53 \<le> fl x" and "fl x \<le> x + x / 2 ^ 53" by linarith+
qed

lemma fl_positive:
  assumes "0 < x"
  shows "0 < fl x"
proof -
  from assms have "0 < x - x / 2 ^ 53" by (simp add: field_simps)
  with fl_bounds(1) [OF assms] show ?thesis by linarith
qed

lemma fl_minus: "fl (- x) = - fl x"
  by (simp add: fl_def Let_def)

lemma fl_nonzero:
  assumes "x \<noteq> 0"
  shows "fl x \<noteq> 0"
proof (cases "0 < x")
  case True
  from fl_positive [OF True] show ?thesis by simp
next
  case False
  with assms have "0 < - x" by simp
  from fl_positive [OF this] show ?thesis by (simp add: fl_minus)
qed

lemma fl_zero: "fl 0 = 0"
  by (simp add: fl_def)

lemma fl_50000: "fl 50000 = 50000"
  by (simp add: fl_def float_exponent_def bit_length.simps py_round_def Let_def)

lemma fl_1: "fl 1 = 1"
  by (simp add: fl_def float_exponent_def bit_length.simps py_round_def Let_def)

text \<open>
  For whole cell and core counts, with at most \<open>2\<^sup>3\<^sup>0\<close> cores, the test of line 24 on the
  rounded quotients decides as the exact comparison does.
\<close>

lemma advisory_condition:
  fixes cells cores :: real
  assumes cells: "0 < cells" "cells \<in> \<nat>" and cores: "0 < cores" "cores \<in> \<nat>" "cores \<le> 2 ^ 30"
  shows "1 < fl (50000 / fl (cells / cores)) \<longleftrightarrow> cells / cores < 50000"
proof -
  from cells(2) obtain n where n: "cells = real n" by (auto simp: Nats_def)
  from cores(2) obtain m where m: "cores = real m" by (auto simp: Nats_def)
  define q where "q = cells / cores"
  define w where "w = 1 / cores"
  from cells(1) cores(1) have qpos: "0 < q" by (simp add: q_def)
  have w: "1 / 2 ^ 30 \<le> w"
    unfolding w_def using cores(1) cores(3) by (intro divide_left_mono) simp_all
  note qb = fl_bounds [OF qpos]
  from fl_positive [OF qpos] have q'pos: "0 < fl q" .
  then have rpos: "0 < 50000 / fl q" by simp
  note rb = fl_bounds [OF rpos]
  consider (less) "n < 50000 * m" | (eq) "n = 50000 * m" | (greater) "50000 * m < n"
    by linarith
  then have "1 < fl (50000 / fl q) \<longleftrightarrow> q < 50000"
  proof cases
    case less
    then have "Suc n \<le> 50000 * m" by simp
    then have "real (Suc n) \<le> real (50000 * m)" by (rule of_nat_mono)
    then have "cells + 1 \<le> 50000 * cores" by (simp add: n m)
    with cores(1) have "(cells + 1) / cores \<le> 50000" by (simp add: pos_divide_le_eq)
    then have qw: "q + w \<le> 50000" by (simp add: q_def w_def add_divide_distrib)
    from qb(2) qw w have "fl q < 50000 * (1 - 1 / 2 ^ 53)" by simp
    with q'pos have "1 < 50000 * (1 - 1 / 2 ^ 53) / fl q" by (simp add: less_divide_eq_1_pos)
    also have "50000 * (1 - 1 / 2 ^ 53) / fl q = 50000 / fl q - (50000 / fl q) / 2 ^ 53"
      by (simp add: field_simps)
    finally have "1 < fl (50000 / fl q)" using rb(1) by linarith
    moreover from qw w have "q < 50000" by simp
    ultimately show ?thesis by simp
  next
    case eq
    then have "cells = 50000 * cores" by (simp add: n m)
    with cores(1) have "q = 50000" by (simp add: q_def)
    then show ?thesis by (simp add: fl_50000 fl_1)
  next
    case greater
    then have "Suc (50000 * m) \<le> n" by simp
    then have "real (Suc (50000 * m)) \<le> real n" by (rule of_nat_mono)
    then have "50000 * cores + 1 \<le> cells" by (simp add: n m)
    with cores(1) have "50000 \<le> (cells - 1) / cores" by (simp add: pos_le_divide_eq)
    then have qw: "50000 + w \<le> q" by (simp add: q_def w_def diff_divide_distrib)
    from qb(1) qw w have "50000 * (1 + 1 / 2 ^ 53) \<le> fl q" by simp
    with q'pos have "50000 * (1 + 1 / 2 ^ 53) / fl q \<le> 1" by (simp add: divide_le_eq_1_pos)
    moreover have "50000 * (1 + 1 / 2 ^ 53) / fl q = 50000 / fl q + (50000 / fl q) / 2 ^ 53"
      by (simp add: field_simps)
    ultimately have "fl (50000 / fl q) \<le> 1" using rb(2) by linarith
    moreover from qw w have "\<not> q < 50000" by simp
    ultimately show ?thesis by simp
  qed
  then show ?thesis by (simp only: q_def)
qed

text \<open>
  The number that goes into \<^verbatim>\<open>round\<close> is the quotient cells / (50000 / (cells / cores))
  up to a relative error of \<open>2\<^sup>-\<^sup>5\<^sup>0\<close>.
\<close>

lemma advised_tolerance:
  fixes cells cores :: real
  assumes "0 < cells" and "0 < cores"
  shows "\<bar>advised cells cores - cells / (50000 / (cells / cores))\<bar>
           \<le> cells / (50000 / (cells / cores)) / 2 ^ 50"
proof -
  define a :: real where "a = 1 - 1 / 2 ^ 53"
  define b :: real where "b = 1 + 1 / 2 ^ 53"
  define q where "q = cells / cores"
  define r where "r = 50000 / fl q"
  define t where "t = cells / fl r"
  define v where "v = cells * q / 50000"
  have apos: "0 < a" and bpos: "0 < b" by (simp_all add: a_def b_def)
  from assms have qpos: "0 < q" by (simp add: q_def)
  have q'pos: "0 < fl q" by (rule fl_positive [OF qpos])
  then have rpos: "0 < r" by (simp add: r_def)
  have r'pos: "0 < fl r" by (rule fl_positive [OF rpos])
  with assms have tpos: "0 < t" by (simp add: t_def)
  from assms qpos have vpos: "0 < v" by (simp add: v_def)
  have qlo: "q * a \<le> fl q" and qhi: "fl q \<le> q * b"
    using fl_bounds [OF qpos] by (simp_all add: a_def b_def algebra_simps)
  have rlo: "r * a \<le> fl r" and rhi: "fl r \<le> r * b"
    using fl_bounds [OF rpos] by (simp_all add: a_def b_def algebra_simps)
  have tlo: "t * a \<le> fl t" and thi: "fl t \<le> t * b"
    using fl_bounds [OF tpos] by (simp_all add: a_def b_def algebra_simps)
  have cr: "cells / r = cells * fl q / 50000"
    using q'pos by (simp add: r_def)
  have upper: "fl t \<le> v * (b * b / a)"
  proof -
    from rpos apos have "0 < r * a" by simp
    with rlo assms(1) have "t \<le> cells / (r * a)"
      unfolding t_def by (intro divide_left_mono) (simp_all add: r'pos)
    also have "cells / (r * a) = cells * fl q / 50000 / a"
      by (simp only: divide_divide_eq_left [symmetric] cr)
    also have "\<dots> \<le> cells * (q * b) / 50000 / a"
      using qhi assms(1) apos by (intro divide_right_mono mult_left_mono) simp_all
    also have "\<dots> = v * (b / a)" by (simp add: v_def)
    finally have "t \<le> v * (b / a)" .
    then have "t * b \<le> v * (b / a) * b" using bpos by (intro mult_right_mono) simp_all
    with thi show ?thesis by (simp add: mult_ac)
  qed
  have lower: "v * (a * a / b) \<le> fl t"
  proof -
    have "v * (a / b) = cells * (q * a) / 50000 / b" by (simp add: v_def)
    also have "\<dots> \<le> cells * fl q / 50000 / b"
      using qlo assms(1) bpos by (intro divide_right_mono mult_left_mono) simp_all
    also have "\<dots> = cells / (r * b)"
      by (simp only: divide_divide_eq_left [symmetric] cr)
    also have "\<dots> \<le> t"
      unfolding t_def using rhi assms(1) r'pos by (intro divide_left_mono) simp_all
    finally have "v * (a / b) \<le> t" .
    then have "v * (a / b) * a \<le> t * a" using apos by (intro mult_right_mono) simp_all
    with tlo show ?thesis by (simp add: mult_ac)
  qed
  have "b * b / a \<le> 1 + 1 / 2 ^ 50" and "1 - 1 / 2 ^ 50 \<le> a * a / b"
    by (simp_all add: a_def b_def)
  with vpos have "v * (b * b / a) \<le> v * (1 + 1 / 2 ^ 50)"
    and "v * (1 - 1 / 2 ^ 50) \<le> v * (a * a / b)"
    by (simp_all only: mult_le_cancel_left_pos)
  with upper lower have "v * (1 - 1 / 2 ^ 50) \<le> fl t" and "fl t \<le> v * (1 + 1 / 2 ^ 50)"
    by linarith+
  then have "fl t - v \<le> v / 2 ^ 50" and "- (fl t - v) \<le> v / 2 ^ 50"
    by (simp_all add: algebra_simps)
  then have "\<bar>fl t - v\<bar> \<le> v / 2 ^ 50"
    by (rule abs_leI)
  moreover have "v = cells / (50000 / (cells / cores))" by (simp add: v_def q_def)
  ultimately show ?thesis by (simp only: t_def r_def q_def)
qed

subsection \<open>The estimators and the entry points, case by case\<close>

lemma cpu_count_nonzero:
  assumes "cells \<noteq> 0" "cores \<noteq> 0"
  shows "estimate_bottleneck_cpu_count cells cores s =
           (Inr (scored ''CPU Cores'' cores (cells / 100000)),
            s\<lparr>stdout := stdout s @ advice cells cores\<rparr>)"
proof -
  from assms have "cells / cores \<noteq> 0" by simp
  then have "fl (cells / cores) \<noteq> 0" by (rule fl_nonzero)
  with assms show ?thesis
    by (simp add: estimate_bottleneck_cpu_count_def py_float_div_def checked_requirements_nonzero
          Let_def print_def)
qed

lemma cpu_count_zero:
  assumes "cells = 0 \<or> cores = 0"
  shows "estimate_bottleneck_cpu_count cells cores s = (Inl ZeroDivisionError, s)"
  using assms
  by (auto simp: estimate_bottleneck_cpu_count_def py_float_div_def fl_zero Let_def)

lemma ofhc_cpu_count_nonzero:
  assumes "cells \<noteq> 0" "cores \<noteq> 0" "procs \<noteq> 0"
  shows "ofhc_estimate_bottleneck_cpu_count cells procs cores s =
           (Inr (scored ''CPU Cores'' (cores * procs) (cells / 100000)),
            s\<lparr>stdout := stdout s @ advice cells (cores * procs)\<rparr>)"
proof -
  from assms have "cells / (cores * procs) \<noteq> 0" by simp
  then have "fl (cells / (cores * procs)) \<noteq> 0" by (rule fl_nonzero)
  with assms show ?thesis
    by (simp add: ofhc_estimate_bottleneck_cpu_count_def py_float_div_def
          checked_requirements_nonzero Let_def print_def)
qed

lemma ofhc_cpu_count_zero:
  assumes "cells = 0 \<or> cores = 0 \<or> procs = 0"
  shows "ofhc_estimate_bottleneck_cpu_count cells procs cores s = (Inl ZeroDivisionError, s)"
  using assms
  by (auto simp: ofhc_estimate_bottleneck_cpu_count_def py_float_div_def fl_zero Let_def)

lemma cpu_speed_eq:
  "estimate_bottleneck_cpu_speed ghz = Inr (scored ''CPU Clock-Speed (GHZ)'' ghz 3)"
  by (simp add: estimate_bottleneck_cpu_speed_def checked_requirements_nonzero)

lemma cpu_l3_cache_nonzero:
  "cores \<noteq> 0 \<Longrightarrow>
   estimate_bottleneck_cpu_l3_cache cores mb = Inr (scored ''CPU L3 Cache (MB)'' mb (cores * 2))"
  by (simp add: estimate_bottleneck_cpu_l3_cache_def checked_requirements_nonzero)

lemma ofhc_cpu_l3_cache_nonzero:
  assumes "cores \<noteq> 0" "procs \<noteq> 0"
  shows "ofhc_estimate_bottleneck_cpu_l3_cache procs cores mb =
           Inr (scored ''CPU L3 Cache (MB)'' mb (procs * cores * 2))"
proof -
  from assms have "procs * cores * 2 \<noteq> 0" by simp
  from checked_requirements_nonzero [OF this] show ?thesis
    by (simp only: ofhc_estimate_bottleneck_cpu_l3_cache_def Let_def)
qed

lemma ram_capacity_nonzero:
  assumes "cells \<noteq> 0"
  shows "estimate_bottleneck_ram_capacity cells gb =
           Inr (scored ''RAM Capacity (GB)'' gb (cells / 1000000 * 2))"
proof -
  from assms have "cells / 1000000 * 2 \<noteq> 0" by simp
  from checked_requirements_nonzero [OF this] show ?thesis
    by (simp only: estimate_bottleneck_ram_capacity_def Let_def)
qed

lemma ram_capacity_zero: "estimate_bottleneck_ram_capacity 0 gb = Inl ZeroDivisionError"
  by (simp add: estimate_bottleneck_ram_capacity_def checked_requirements_zero)

lemma ram_channels_nonzero:
  "cores \<noteq> 0 \<Longrightarrow> channels \<noteq> 0 \<Longrightarrow>
   estimate_bottleneck_ram_channels cores channels =
     Inr (scored ''RAM Channels'' 4 (cores / channels))"
  by (simp add: estimate_bottleneck_ram_channels_def py_div_def checked_requirements_nonzero)

lemma ram_channels_zero:
  "cores = 0 \<or> channels = 0 \<Longrightarrow>
   estimate_bottleneck_ram_channels cores channels = Inl ZeroDivisionError"
  by (auto simp: estimate_bottleneck_ram_channels_def py_div_def checked_requirements_zero)

lemma ofhc_ram_channels_nonzero:
  assumes "cores \<noteq> 0" "procs \<noteq> 0"
  shows "ofhc_estimate_bottleneck_ram_channels procs cores channels =
           Inr (scored ''RAM Channels'' channels (cores * procs / 4))"
proof -
  from assms have "cores * procs / 4 \<noteq> 0" by simp
  from checked_requirements_nonzero [OF this] show ?thesis
    by (simp only: ofhc_estimate_bottleneck_ram_channels_def Let_def)
qed

lemma ofhc_ram_channels_zero:
  "cores = 0 \<or> procs = 0 \<Longrightarrow>
   ofhc_estimate_bottleneck_ram_channels procs cores channels = Inl ZeroDivisionError"
  by (auto simp: ofhc_estimate_bottleneck_ram_channels_def checked_requirements_zero)

lemma ram_bandwidth_nonzero:
  assumes "cores \<noteq> 0"
  shows "estimate_bottleneck_ram_bandwidth cores mts channels =
           Inr (scored ''RAM Bandwidth (GB/s)''
                  (mts * 1000000 * 8 * channels / 1000000000 * (7 / 10)) (cores * 2))"
proof -
  from assms have "cores * 2 \<noteq> 0" by simp
  from checked_requirements_nonzero [OF this] show ?thesis
    by (simp only: estimate_bottleneck_ram_bandwidth_def Let_def)
qed

lemma ofhc_ram_bandwidth_nonzero:
  assumes "cores \<noteq> 0" "procs \<noteq> 0"
  shows "ofhc_estimate_bottleneck_ram_bandwidth procs cores mts channels =
           Inr (scored ''RAM Bandwidth (GB/s)''
                  (mts * 1000000 * 8 * channels / 1000000000 * (7 / 10)) (procs * cores * 2))"
proof -
  from assms have "procs * cores * 2 \<noteq> 0" by simp
  from checked_requirements_nonzero [OF this] show ?thesis
    by (simp only: ofhc_estimate_bottleneck_ram_bandwidth_def Let_def)
qed

lemma gpu_vram_nonzero:
  assumes "cells \<noteq> 0"
  shows "estimate_gpu_vram_recommendations cells gb =
           Inr (scored ''Virtual RAM (GB)'' gb (cells / 1000000 * (1 / 12)))"
proof -
  from assms have "cells / 1000000 * (1 / 12) \<noteq> 0" by simp
  from checked_requirements_nonzero [OF this] show ?thesis
    by (simp only: estimate_gpu_vram_recommendations_def Let_def)
qed

lemma functions_list_nonzero:
  assumes "cells \<noteq> 0" "channels \<noteq> 0" "cores \<noteq> 0"
  shows "functions_list cells ram_gb channels mts cores ghz l3 vram s =
           (Inr (results cells ram_gb channels mts cores ghz l3 vram),
            s\<lparr>stdout := stdout s @ advice cells cores\<rparr>)"
  unfolding functions_list_def
  by (simp only: ram_capacity_nonzero [OF assms(1)] ram_channels_nonzero [OF assms(3) assms(2)]
        ram_bandwidth_nonzero [OF assms(3)] cpu_count_nonzero [OF assms(1) assms(3)] cpu_speed_eq
        cpu_l3_cache_nonzero [OF assms(3)] gpu_vram_nonzero [OF assms(1)]
        sum.case prod.case)

lemma functions_list_zero:
  assumes "cells = 0 \<or> channels = 0 \<or> cores = 0"
  shows "functions_list cells ram_gb channels mts cores ghz l3 vram s = (Inl ZeroDivisionError, s)"
proof (cases "cells = 0")
  case True
  then show ?thesis by (simp add: functions_list_def ram_capacity_zero)
next
  case False
  with assms have "cores = 0 \<or> channels = 0" by blast
  then show ?thesis
    using False by (simp add: functions_list_def ram_capacity_nonzero ram_channels_zero)
qed

lemma ofhc_functions_list_nonzero:
  assumes "cells \<noteq> 0" "procs \<noteq> 0" "cores \<noteq> 0"
  shows "ofhc_functions_list cells ram_gb channels mts procs cores ghz l3 vram s =
           (Inr (ofhc_results cells ram_gb channels mts procs cores ghz l3 vram),
            s\<lparr>stdout := stdout s @ advice cells (cores * procs)\<rparr>)"
  unfolding ofhc_functions_list_def
  by (simp only: ram_capacity_nonzero [OF assms(1)] ofhc_ram_channels_nonzero [OF assms(3) assms(2)]
        ofhc_ram_bandwidth_nonzero [OF assms(3) assms(2)]
        ofhc_cpu_count_nonzero [OF assms(1) assms(3) assms(2)] cpu_speed_eq
        ofhc_cpu_l3_cache_nonzero [OF assms(3) assms(2)] gpu_vram_nonzero [OF assms(1)]
        sum.case prod.case)

lemma ofhc_functions_list_zero:
  assumes "cells = 0 \<or> procs = 0 \<or> cores = 0"
  shows "ofhc_functions_list cells ram_gb channels mts procs cores ghz l3 vram s =
           (Inl ZeroDivisionError, s)"
proof (cases "cells = 0")
  case True
  then show ?thesis by (simp add: ofhc_functions_list_def ram_capacity_zero)
next
  case False
  with assms have "cores = 0 \<or> procs = 0" by blast
  then show ?thesis
    using False by (simp add: ofhc_functions_list_def ram_capacity_nonzero ofhc_ram_channels_zero)
qed

lemma estimate_cfd_requirements_nonzero:
  assumes "cells \<noteq> 0" "channels \<noteq> 0" "cores \<noteq> 0"
  shows "estimate_cfd_requirements cells ram_gb channels mts cores ghz l3 vram s =
           (Inr (), s\<lparr>stdout := stdout s @ advice cells cores
                          @ map row (rank (results cells ram_gb channels mts cores ghz l3 vram))\<rparr>)"
  unfolding estimate_cfd_requirements_def functions_list_nonzero [OF assms]
  by (simp add: print_rows_eq)

lemma estimate_cfd_requirements_zero:
  assumes "cells = 0 \<or> channels = 0 \<or> cores = 0"
  shows "estimate_cfd_requirements cells ram_gb channels mts cores ghz l3 vram s =
           (Inl ZeroDivisionError, s)"
  unfolding estimate_cfd_requirements_def functions_list_zero [OF assms] by simp

lemma ofhc_estimate_cfd_requirements_nonzero:
  assumes "cells \<noteq> 0" "procs \<noteq> 0" "cores \<noteq> 0"
  shows "ofhc_estimate_cfd_requirements cells ram_gb channels mts procs cores ghz l3 vram s =
           (Inr (), s\<lparr>stdout := stdout s @ advice cells (cores * procs)
                          @ map row (rank (ofhc_results cells ram_gb channels mts procs cores ghz l3 vram))\<rparr>)"
  unfolding ofhc_estimate_cfd_requirements_def ofhc_functions_list_nonzero [OF assms]
  by (simp add: print_rows_eq)

lemma ofhc_estimate_cfd_requirements_zero:
  assumes "cells = 0 \<or> procs = 0 \<or> cores = 0"
  shows "ofhc_estimate_cfd_requirements cells ram_gb channels mts procs cores ghz l3 vram s =
           (Inl ZeroDivisionError, s)"
  unfolding ofhc_estimate_cfd_requirements_def ofhc_functions_list_zero [OF assms] by simp

lemma fmt_2: "fmt 2 = ''2.00''"
  by (simp add: fmt_def format_fixed_def py_round_def digits_of.simps commas.simps zero_pad_def Let_def)
lemma fmt_4: "fmt 4 = ''4.00''"
  by (simp add: fmt_def format_fixed_def py_round_def digits_of.simps commas.simps zero_pad_def Let_def)
lemma fmt_5: "fmt 5 = ''5.00''"
  by (simp add: fmt_def format_fixed_def py_round_def digits_of.simps commas.simps zero_pad_def Let_def)
lemma fmt_10: "fmt 10 = ''10.0''"
  by (simp add: fmt_def format_fixed_def py_round_def digits_of.simps commas.simps zero_pad_def Let_def)

subsection \<open>The ratio scorer\<close>

text \<open>
  C1. For every actual value and every non-zero required value, \<^verbatim>\<open>checked_requirements\<close>
  returns (does not raise), the ratio of its result is actual / required, and its mark is
  the pass mark exactly when the ratio is at least 1 and the fail mark exactly when the
  ratio is below 1. Ratio and mark are functions of the two numbers alone: the title and
  the formatted strings play no part in them.
\<close>

theorem checked_requirements_ratio_verdict:
  assumes "required \<noteq> 0"
  shows "\<exists>f. checked_requirements ttl actual required = Inr f
             \<and> ratio f = actual / required
             \<and> (mark f = check_mark \<longleftrightarrow> 1 \<le> ratio f)
             \<and> (mark f = cross_mark \<longleftrightarrow> ratio f < 1)"
  using assms marks_differ by (auto simp: checked_requirements_nonzero)

theorem checked_requirements_ratio_verdict_witness:
  "(100::real) \<noteq> 0 \<and>
   (\<exists>f. checked_requirements ''CPU Cores'' 20 100 = Inr f
        \<and> ratio f = 1 / 5 \<and> mark f = cross_mark \<and> mark f \<noteq> check_mark)"
  using checked_requirements_ratio_verdict [of 100 "''CPU Cores''" 20] by auto

subsection \<open>The ranking\<close>

text \<open>
  C2. For every list of estimator results, the ranking of line 124 (line 128 in
  \<^verbatim>\<open>ofhc.py\<close>) returns a permutation of the list, the ratios along it never decrease, and
  the results that share a ratio keep the order they had in the input.
\<close>

theorem rank_sorted_stable:
  "mset (rank fs) = mset fs
   \<and> sorted (map ratio (rank fs))
   \<and> (\<forall>k. filter (\<lambda>f. ratio f = k) (rank fs) = filter (\<lambda>f. ratio f = k) fs)"
  by (simp add: rank_def py_sorted_def sort_key_stable)

subsection \<open>Zero divisors and the cell count\<close>






subsection \<open>The RAM-channel estimator\<close>

text \<open>
  C4 asks for the channel count as the displayed actual value and a quarter of the core
  count as the displayed required value. \<^verbatim>\<open>ofhc.py\<close> does so. \<^verbatim>\<open>hardware_checker.py\<close>
  passes the constant 4 as numerator and the cores per channel as divisor: for 20 cores and
  2 channels it displays 4.00 against 10.0 in the row titled \<^verbatim>\<open>RAM Channels\<close>, where
  \<^verbatim>\<open>ofhc.py\<close> with one processor displays 2.00 against 5.00. The ratio, 2/5, is the
  same.
\<close>

theorem ram_channels_displayed_pair:
  "map_sum id (\<lambda>f. (ratio f, actual_fmt f, target_fmt f)) (estimate_bottleneck_ram_channels 20 2)
     = Inr (2 / 5, ''4.00'', ''10.0'')
   \<and> map_sum id (\<lambda>f. (ratio f, actual_fmt f, target_fmt f))
        (ofhc_estimate_bottleneck_ram_channels 1 20 2)
     = Inr (2 / 5, ''2.00'', ''5.00'')
   \<and> fmt 2 = ''2.00'' \<and> fmt (20 / 4) = ''5.00''"
  by (simp add: ram_channels_nonzero ofhc_ram_channels_nonzero fmt_2 fmt_4 fmt_5 fmt_10)

text \<open>
  C5, as the specification states it, says that the two variants return inverted (mutually
  reciprocal) ratios, so that for some positive core and channel counts the two ratios
  differ. At 20 cores and 4 channels both ratios are 4/5: they are equal, and their
  product is not 1. In the arithmetic of this embedding no positive counts separate them.
\<close>

theorem ram_channel_ratios_not_inverted:
  "(\<exists>f g. estimate_bottleneck_ram_channels 20 4 = Inr f
         \<and> ofhc_estimate_bottleneck_ram_channels 1 20 4 = Inr g
         \<and> ratio f = 4 / 5 \<and> ratio g = 4 / 5 \<and> ratio f * ratio g \<noteq> 1)
   \<and> \<not> (\<exists>cores channels. 0 < cores \<and> 0 < channels
          \<and> map_sum id ratio (estimate_bottleneck_ram_channels cores channels)
              \<noteq> map_sum id ratio (ofhc_estimate_bottleneck_ram_channels 1 cores channels))"
  by (simp add: ram_channels_nonzero ofhc_ram_channels_nonzero)

text \<open>
  C5, amended. For the same non-zero core and channel counts (one processor in
  \<^verbatim>\<open>ofhc.py\<close>), both RAM-channel estimators return, and with the same ratio,
  channels / (cores / 4).
\<close>

theorem ram_channel_ratios_agree:
  assumes "cores \<noteq> 0" and "channels \<noteq> 0"
  shows "\<exists>f g. estimate_bottleneck_ram_channels cores channels = Inr f
             \<and> ofhc_estimate_bottleneck_ram_channels 1 cores channels = Inr g
             \<and> ratio f = ratio g \<and> ratio g = channels / (cores / 4)"
  using assms by (simp add: ram_channels_nonzero ofhc_ram_channels_nonzero)

theorem ram_channel_ratios_agree_witness:
  "\<exists>f g. estimate_bottleneck_ram_channels 20 4 = Inr f
        \<and> ofhc_estimate_bottleneck_ram_channels 1 20 4 = Inr g
        \<and> ratio f = 4 / 5 \<and> ratio g = 4 / 5"
  using ram_channel_ratios_agree [of 20 4] by auto

subsection \<open>The core-count estimator\<close>

lemma advised_rounded_tolerance:
  fixes cells cores :: real
  assumes "0 < cells" and "0 < cores"
  shows "\<bar>of_int (py_round (advised cells cores)) - cells / (50000 / (cells / cores))\<bar>
           \<le> 1 / 2 + cells / (50000 / (cells / cores)) / 2 ^ 50"
proof -
  have "\<bar>of_int (py_round (advised cells cores)) - advised cells cores\<bar> \<le> 1 / 2"
    by (rule py_round_error)
  with advised_tolerance [OF assms] show ?thesis by linarith
qed

lemma advisory_number_100000_20:
  "py_str_int (py_round (fl (100000 / fl (50000 / fl 5000)))) = ''10000''"
  by (simp add: fl_def float_exponent_def bit_length.simps py_round_def Let_def
        py_str_int_def digits_of.simps)

lemma advisory_number_33000_24:
  "py_str_int (py_round (fl (33000 / fl (50000 / fl 1375)))) = ''907''"
  by (simp add: fl_def float_exponent_def bit_length.simps py_round_def Let_def
        py_str_int_def digits_of.simps)


text \<open>
  C6. For every positive whole cell count (exactly representable, at most \<open>2\<^sup>5\<^sup>3\<close>) and
  positive whole core count (at most \<open>2\<^sup>3\<^sup>0\<close> cores in all; cores times processors in
  \<^verbatim>\<open>ofhc.py\<close>), the core-count estimator returns a result whose ratio is
  cores / (cells / 100000), and the standard output grows by the advisory line if and
  only if cells / cores < 50000, and by nothing otherwise. The number in the advisory is
  the quotient cells / (50000 / (cells / cores)) as the interpreter computes it, each of
  the three divisions rounded to double precision, and then rounded to an integer by
  \<^verbatim>\<open>round\<close>; it is within 1/2 + v / \<open>2\<^sup>5\<^sup>0\<close> of the exact quotient v. For 10000000 cells and
  20 cores the ratio is 1/5, the mark is the fail mark and the standard output is
  unchanged: no advisory.
\<close>

theorem cpu_count_ratio_and_advisory:
  assumes "cells \<in> \<nat>" and "0 < cells" and "cells \<le> 2 ^ 53"
    and "cores \<in> \<nat>" and "0 < cores"
    and "procs \<in> \<nat>" and "0 < procs" and "cores * procs \<le> 2 ^ 30"
  shows "(\<exists>f n. estimate_bottleneck_cpu_count cells cores s
               = (Inr f, s\<lparr>stdout := stdout s @
                    (if cells / cores < 50000
                     then [''Do not use all cores for computing. Limit the simulation to ''
                           @ py_str_int n]
                     else [])\<rparr>)
             \<and> ratio f = cores / (cells / 100000)
             \<and> n = py_round (fl (cells / fl (50000 / fl (cells / cores))))
             \<and> \<bar>of_int n - cells / (50000 / (cells / cores))\<bar>
                  \<le> 1 / 2 + cells / (50000 / (cells / cores)) / 2 ^ 50)
       \<and> (\<exists>f n. ofhc_estimate_bottleneck_cpu_count cells procs cores s
               = (Inr f, s\<lparr>stdout := stdout s @
                    (if cells / (cores * procs) < 50000
                     then [''Do not use all cores for computing. Limit the simulation to ''
                           @ py_str_int n]
                     else [])\<rparr>)
             \<and> ratio f = cores * procs / (cells / 100000)
             \<and> n = py_round (fl (cells / fl (50000 / fl (cells / (cores * procs)))))
             \<and> \<bar>of_int n - cells / (50000 / (cells / (cores * procs)))\<bar>
                  \<le> 1 / 2 + cells / (50000 / (cells / (cores * procs))) / 2 ^ 50)
       \<and> (\<exists>f. estimate_bottleneck_cpu_count 10000000 20 s = (Inr f, s\<lparr>stdout := stdout s\<rparr>)
             \<and> ratio f = 1 / 5 \<and> mark f = cross_mark)
       \<and> (\<exists>f. ofhc_estimate_bottleneck_cpu_count 10000000 2 10 s = (Inr f, s\<lparr>stdout := stdout s\<rparr>)
             \<and> ratio f = 1 / 5 \<and> mark f = cross_mark)"
proof (intro conjI)
  from assms have nz: "cells \<noteq> 0" "cores \<noteq> 0" "procs \<noteq> 0" by simp_all
  from assms have tot: "0 < cores * procs" by simp
  have totnat: "cores * procs \<in> \<nat>" using assms(4) assms(6) by (rule Nats_mult)
  from assms(6) assms(7) have "1 \<le> procs" by (auto simp: Nats_def)
  with assms(5) have "cores * 1 \<le> cores * procs" by (intro mult_left_mono) simp_all
  with assms(8) have small: "cores \<le> 2 ^ 30" by simp
  note c1 = advisory_condition [OF assms(2) assms(1) assms(5) assms(4) small]
  note c2 = advisory_condition [OF assms(2) assms(1) tot totnat assms(8)]
  show "\<exists>f n. estimate_bottleneck_cpu_count cells cores s
               = (Inr f, s\<lparr>stdout := stdout s @
                    (if cells / cores < 50000
                     then [''Do not use all cores for computing. Limit the simulation to ''
                           @ py_str_int n]
                     else [])\<rparr>)
             \<and> ratio f = cores / (cells / 100000)
             \<and> n = py_round (fl (cells / fl (50000 / fl (cells / cores))))
             \<and> \<bar>of_int n - cells / (50000 / (cells / cores))\<bar>
                  \<le> 1 / 2 + cells / (50000 / (cells / cores)) / 2 ^ 50"
    unfolding cpu_count_nonzero [OF nz(1) nz(2)] c1
    by (intro exI [of _ "scored ''CPU Cores'' cores (cells / 100000)"]
          exI [of _ "py_round (advised cells cores)"] conjI refl
          advised_rounded_tolerance [OF assms(2) assms(5)])
       (simp only: requirement.simps)
  show "\<exists>f n. ofhc_estimate_bottleneck_cpu_count cells procs cores s
               = (Inr f, s\<lparr>stdout := stdout s @
                    (if cells / (cores * procs) < 50000
                     then [''Do not use all cores for computing. Limit the simulation to ''
                           @ py_str_int n]
                     else [])\<rparr>)
             \<and> ratio f = cores * procs / (cells / 100000)
             \<and> n = py_round (fl (cells / fl (50000 / fl (cells / (cores * procs)))))
             \<and> \<bar>of_int n - cells / (50000 / (cells / (cores * procs)))\<bar>
                  \<le> 1 / 2 + cells / (50000 / (cells / (cores * procs))) / 2 ^ 50"
    unfolding ofhc_cpu_count_nonzero [OF nz] c2
    by (intro exI [of _ "scored ''CPU Cores'' (cores * procs) (cells / 100000)"]
          exI [of _ "py_round (advised cells (cores * procs))"] conjI refl
          advised_rounded_tolerance [OF assms(2) tot])
       (simp only: requirement.simps)
  have no: "\<not> 1 < fl (50000 / fl 500000)"
    by (simp add: fl_def float_exponent_def bit_length.simps py_round_def Let_def)
  show "\<exists>f. estimate_bottleneck_cpu_count 10000000 20 s = (Inr f, s\<lparr>stdout := stdout s\<rparr>)
             \<and> ratio f = 1 / 5 \<and> mark f = cross_mark"
    using no by (simp add: cpu_count_nonzero)
  show "\<exists>f. ofhc_estimate_bottleneck_cpu_count 10000000 2 10 s = (Inr f, s\<lparr>stdout := stdout s\<rparr>)
             \<and> ratio f = 1 / 5 \<and> mark f = cross_mark"
    using no by (simp add: ofhc_cpu_count_nonzero)
qed


theorem cpu_count_ratio_and_advisory_witness:
  "(\<exists>f. estimate_bottleneck_cpu_count 33000 24 hardware_checker_module
           = (Inr f, hardware_checker_module
                \<lparr>stdout := [''Do not use all cores for computing. Limit the simulation to 907'']\<rparr>)
        \<and> ratio f = 800 / 11)
   \<and> (\<exists>f. ofhc_estimate_bottleneck_cpu_count 100000 2 10 ofhc_module
           = (Inr f, ofhc_module
                \<lparr>stdout := [''Do not use all cores for computing. Limit the simulation to 10000'']\<rparr>)
        \<and> ratio f = 20)"
proof -
  have nat: "(33000::real) \<in> \<nat>" "(24::real) \<in> \<nat>" "(1::real) \<in> \<nat>"
    "(100000::real) \<in> \<nat>" "(10::real) \<in> \<nat>" "(2::real) \<in> \<nat>"
    by simp_all
  from cpu_count_ratio_and_advisory [OF nat(1) _ _ nat(2) _ nat(3), of hardware_checker_module]
  obtain f where f: "estimate_bottleneck_cpu_count 33000 24 hardware_checker_module
           = (Inr f, hardware_checker_module
                \<lparr>stdout := [''Do not use all cores for computing. Limit the simulation to ''
                             @ py_str_int (py_round (advised 33000 24))]\<rparr>)"
        "ratio f = 800 / 11"
    by (auto simp: hardware_checker_module_def)
  from cpu_count_ratio_and_advisory [OF nat(4) _ _ nat(5) _ nat(6), of ofhc_module]
  obtain g where g: "ofhc_estimate_bottleneck_cpu_count 100000 2 10 ofhc_module
           = (Inr g, ofhc_module
                \<lparr>stdout := [''Do not use all cores for computing. Limit the simulation to ''
                             @ py_str_int (py_round (advised 100000 20))]\<rparr>)"
        "ratio g = 20"
    by (auto simp: ofhc_module_def)
  from f g show ?thesis
    by (simp add: advisory_number_100000_20 advisory_number_33000_24)
qed

subsection \<open>No GPU\<close>

lemma fmt_5_6: "fmt (5 / 6) = ''0.83''"
  by (simp add: fmt_def format_fixed_def py_round_def digits_of.simps commas.simps zero_pad_def Let_def)

lemma insort_key_past:
  fixes f :: "'a \<Rightarrow> real"
  assumes "\<forall>y \<in> set ys. f y < f x"
  shows "insort_key f x (ys @ zs) = ys @ insort_key f x zs"
  using assms by (induction ys) simp_all

text \<open>
  Where a stable ascending sort puts a last element whose key is the least: after the
  earlier elements with that key, in their order, and before all others.
\<close>

lemma sort_key_least_last:
  fixes f :: "'a \<Rightarrow> real"
  assumes "\<forall>x \<in> set xs. f g \<le> f x"
  shows "sort_key f (xs @ [g])
           = filter (\<lambda>x. f x = f g) xs @ g # sort_key f (filter (\<lambda>x. f g < f x) xs)"
  using assms
proof (induction xs)
  case Nil
  show ?case by simp
next
  case (Cons x xs)
  then have IH: "sort_key f (xs @ [g])
           = filter (\<lambda>x. f x = f g) xs @ g # sort_key f (filter (\<lambda>x. f g < f x) xs)"
    and le: "f g \<le> f x" by simp_all
  show ?case
  proof (cases "f x = f g")
    case True
    have "insort_key f x (filter (\<lambda>x. f x = f g) xs @ g # sort_key f (filter (\<lambda>x. f g < f x) xs))
            = x # filter (\<lambda>x. f x = f g) xs @ g # sort_key f (filter (\<lambda>x. f g < f x) xs)"
    proof (cases "filter (\<lambda>x. f x = f g) xs")
      case Nil
      with True show ?thesis by simp
    next
      case (Cons z zs)
      then have "z \<in> set (filter (\<lambda>x. f x = f g) xs)" by simp
      then have "f z = f g" by simp
      with True Cons show ?thesis by simp
    qed
    with True show ?thesis by (simp add: IH)
  next
    case False
    with le have lt: "f g < f x" by simp
    have "\<forall>y \<in> set (filter (\<lambda>x. f x = f g) xs @ [g]). f y < f x"
      using lt by auto
    from insort_key_past [OF this, of "sort_key f (filter (\<lambda>x. f g < f x) xs)"]
    have "insort_key f x (filter (\<lambda>x. f x = f g) xs @ g # sort_key f (filter (\<lambda>x. f g < f x) xs))
            = filter (\<lambda>x. f x = f g) xs @ g # insort_key f x (sort_key f (filter (\<lambda>x. f g < f x) xs))"
      by simp
    with False lt show ?thesis by (simp add: IH)
  qed
qed

lemma rank_least_last:
  assumes "\<forall>f \<in> set fs. ratio g \<le> ratio f"
  shows "rank (fs @ [g])
           = filter (\<lambda>f. ratio f = ratio g) fs @ g # rank (filter (\<lambda>f. ratio g < ratio f) fs)"
  unfolding rank_def py_sorted_def by (rule sort_key_least_last [OF assms])



text \<open>
  C7. With no GPU memory and a positive cell count, the GPU estimator does not raise: it
  scores 0 against (cells / 1000000) / 12, so its ratio is 0 and its mark the fail mark.
  In a profile with positive core and channel counts and no negative capacity or speed,
  the entry point ranks seven results, those of the seven estimators in the order of the
  list display, the GPU result being the seventh. None of the other six ratios is below
  0, so the GPU result has the lowest ratio of the seven. The ranking is ascending: the
  GPU result comes right after those of the other six whose ratio is 0 as well, in their
  order, and before all those with a positive ratio; when the other six ratios are
  positive it is the first row printed.
\<close>

theorem gpu_zero_vram_lowest_ratio:
  assumes "0 < cells" and "0 < cores" and "0 < channels"
    and "0 \<le> ram_gb" and "0 \<le> mts" and "0 \<le> ghz" and "0 \<le> l3"
  shows "\<exists>f1 f2 f3 f4 f5 f6 g s'.
           estimate_bottleneck_ram_capacity cells ram_gb = Inr f1
         \<and> estimate_bottleneck_ram_channels cores channels = Inr f2
         \<and> estimate_bottleneck_ram_bandwidth cores mts channels = Inr f3
         \<and> estimate_bottleneck_cpu_count cells cores s = (Inr f4, s')
         \<and> estimate_bottleneck_cpu_speed ghz = Inr f5
         \<and> estimate_bottleneck_cpu_l3_cache cores l3 = Inr f6
         \<and> estimate_gpu_vram_recommendations cells 0 = Inr g
         \<and> estimate_gpu_vram_recommendations cells 0
             = checked_requirements ''Virtual RAM (GB)'' 0 (cells / 1000000 / 12)
         \<and> ratio g = 0 \<and> mark g = cross_mark
         \<and> 0 \<le> ratio f1 \<and> 0 \<le> ratio f2 \<and> 0 \<le> ratio f3
         \<and> 0 \<le> ratio f4 \<and> 0 \<le> ratio f5 \<and> 0 \<le> ratio f6
         \<and> functions_list cells ram_gb channels mts cores ghz l3 0 s
             = (Inr [f1, f2, f3, f4, f5, f6, g], s')
         \<and> rank [f1, f2, f3, f4, f5, f6, g]
             = filter (\<lambda>f. ratio f = 0) [f1, f2, f3, f4, f5, f6]
               @ g # rank (filter (\<lambda>f. 0 < ratio f) [f1, f2, f3, f4, f5, f6])
         \<and> estimate_cfd_requirements cells ram_gb channels mts cores ghz l3 0 s
             = (Inr (), s'\<lparr>stdout := stdout s' @ map row (rank [f1, f2, f3, f4, f5, f6, g])\<rparr>)"
proof -
  from assms have nz: "cells \<noteq> 0" "channels \<noteq> 0" "cores \<noteq> 0" by simp_all
  let ?f1 = "scored ''RAM Capacity (GB)'' ram_gb (cells / 1000000 * 2)"
  let ?f2 = "scored ''RAM Channels'' 4 (cores / channels)"
  let ?f3 = "scored ''RAM Bandwidth (GB/s)''
               (mts * 1000000 * 8 * channels / 1000000000 * (7 / 10)) (cores * 2)"
  let ?f4 = "scored ''CPU Cores'' cores (cells / 100000)"
  let ?f5 = "scored ''CPU Clock-Speed (GHZ)'' ghz 3"
  let ?f6 = "scored ''CPU L3 Cache (MB)'' l3 (cores * 2)"
  let ?g = "scored ''Virtual RAM (GB)'' 0 (cells / 1000000 * (1 / 12))"
  let ?s' = "s\<lparr>stdout := stdout s @ advice cells cores\<rparr>"
  have e1: "estimate_bottleneck_ram_capacity cells ram_gb = Inr ?f1"
    by (rule ram_capacity_nonzero [OF nz(1)])
  have e2: "estimate_bottleneck_ram_channels cores channels = Inr ?f2"
    by (rule ram_channels_nonzero [OF nz(3) nz(2)])
  have e3: "estimate_bottleneck_ram_bandwidth cores mts channels = Inr ?f3"
    by (rule ram_bandwidth_nonzero [OF nz(3)])
  have e4: "estimate_bottleneck_cpu_count cells cores s = (Inr ?f4, ?s')"
    by (rule cpu_count_nonzero [OF nz(1) nz(3)])
  have e5: "estimate_bottleneck_cpu_speed ghz = Inr ?f5"
    by (rule cpu_speed_eq)
  have e6: "estimate_bottleneck_cpu_l3_cache cores l3 = Inr ?f6"
    by (rule cpu_l3_cache_nonzero [OF nz(3)])
  have e7: "estimate_gpu_vram_recommendations cells 0 = Inr ?g"
    by (rule gpu_vram_nonzero [OF nz(1)])
  have same: "estimate_gpu_vram_recommendations cells 0
                = checked_requirements ''Virtual RAM (GB)'' 0 (cells / 1000000 / 12)"
    by (simp add: estimate_gpu_vram_recommendations_def)
  have g0: "ratio ?g = 0" and gm: "mark ?g = cross_mark" by simp_all
  have r1: "0 \<le> ratio ?f1" and r2: "0 \<le> ratio ?f2" and r3: "0 \<le> ratio ?f3"
    and r4: "0 \<le> ratio ?f4" and r5: "0 \<le> ratio ?f5" and r6: "0 \<le> ratio ?f6"
    using assms by simp_all
  have fl: "functions_list cells ram_gb channels mts cores ghz l3 0 s
              = (Inr [?f1, ?f2, ?f3, ?f4, ?f5, ?f6, ?g], ?s')"
    by (rule functions_list_nonzero [OF nz])
  have "\<forall>f \<in> set [?f1, ?f2, ?f3, ?f4, ?f5, ?f6]. ratio ?g \<le> ratio f"
    using r1 r2 r3 r4 r5 r6 by (simp only: g0 list.set ball_simps)
  from rank_least_last [OF this]
  have rk: "rank [?f1, ?f2, ?f3, ?f4, ?f5, ?f6, ?g]
             = filter (\<lambda>f. ratio f = 0) [?f1, ?f2, ?f3, ?f4, ?f5, ?f6]
               @ ?g # rank (filter (\<lambda>f. 0 < ratio f) [?f1, ?f2, ?f3, ?f4, ?f5, ?f6])"
    by (simp only: g0 append.simps)
  have run: "estimate_cfd_requirements cells ram_gb channels mts cores ghz l3 0 s
             = (Inr (), ?s'\<lparr>stdout := stdout ?s'
                  @ map row (rank [?f1, ?f2, ?f3, ?f4, ?f5, ?f6, ?g])\<rparr>)"
    unfolding estimate_cfd_requirements_def fl by (simp add: print_rows_eq)
  from e1 e2 e3 e4 e5 e6 e7 same g0 gm r1 r2 r3 r4 r5 r6 fl rk run
  show ?thesis by blast
qed


theorem gpu_zero_vram_lowest_ratio_witness:
  "(\<exists>f1 f2 f3 f4 f5 f6 g s'.
      functions_list 10000000 64 4 2700 20 2 64 0 hardware_checker_module
        = (Inr [f1, f2, f3, f4, f5, f6, g], s')
    \<and> estimate_gpu_vram_recommendations 10000000 0 = Inr g
    \<and> ratio g = 0 \<and> mark g = cross_mark \<and> target_fmt g = ''0.83''
    \<and> map ratio [f1, f2, f3, f4, f5, f6] = [16 / 5, 4 / 5, 189 / 125, 1 / 5, 2 / 3, 8 / 5]
    \<and> rank [f1, f2, f3, f4, f5, f6, g] = [g, f4, f5, f2, f3, f6, f1])
   \<and> (\<exists>f1 f2 f3 f4 f5 f6 g s'.
      functions_list 10000000 0 4 2700 20 2 64 0 hardware_checker_module
        = (Inr [f1, f2, f3, f4, f5, f6, g], s')
    \<and> map ratio [f1, f2, f3, f4, f5, f6, g] = [0, 4 / 5, 189 / 125, 1 / 5, 2 / 3, 8 / 5, 0]
    \<and> rank [f1, f2, f3, f4, f5, f6, g] = [f1, g, f4, f5, f2, f3, f6])"
proof (intro conjI)
  have p: "(0::real) < 10000000" "(0::real) < 20" "(0::real) < 4" "(0::real) \<le> 64"
    "(0::real) \<le> 2700" "(0::real) \<le> 2" "(0::real) \<le> 64"
    by simp_all
  from gpu_zero_vram_lowest_ratio [OF p, of hardware_checker_module]
  obtain f1 f2 f3 f4 f5 f6 g s' where
    e1: "estimate_bottleneck_ram_capacity 10000000 64 = Inr f1"
    and e2: "estimate_bottleneck_ram_channels 20 4 = Inr f2"
    and e3: "estimate_bottleneck_ram_bandwidth 20 2700 4 = Inr f3"
    and e4: "estimate_bottleneck_cpu_count 10000000 20 hardware_checker_module = (Inr f4, s')"
    and e5: "estimate_bottleneck_cpu_speed 2 = Inr f5"
    and e6: "estimate_bottleneck_cpu_l3_cache 20 64 = Inr f6"
    and e7: "estimate_gpu_vram_recommendations 10000000 0 = Inr g"
    and same: "estimate_gpu_vram_recommendations 10000000 0
             = checked_requirements ''Virtual RAM (GB)'' 0 (10000000 / 1000000 / 12)"
    and g: "ratio g = 0" "mark g = cross_mark"
    and fl: "functions_list 10000000 64 4 2700 20 2 64 0 hardware_checker_module
             = (Inr [f1, f2, f3, f4, f5, f6, g], s')"
    and rk: "rank [f1, f2, f3, f4, f5, f6, g]
             = filter (\<lambda>f. ratio f = 0) [f1, f2, f3, f4, f5, f6]
               @ g # rank (filter (\<lambda>f. 0 < ratio f) [f1, f2, f3, f4, f5, f6])"
    by blast
  from e1 have r1: "ratio f1 = 16 / 5" by (auto simp: ram_capacity_nonzero)
  from e2 have r2: "ratio f2 = 4 / 5" by (auto simp: ram_channels_nonzero)
  from e3 have r3: "ratio f3 = 189 / 125" by (auto simp: ram_bandwidth_nonzero)
  from e4 have r4: "ratio f4 = 1 / 5" by (auto simp: cpu_count_nonzero)
  from e5 have r5: "ratio f5 = 2 / 3" by (auto simp: cpu_speed_eq)
  from e6 have r6: "ratio f6 = 8 / 5" by (auto simp: cpu_l3_cache_nonzero)
  from e7 same have tf: "target_fmt g = ''0.83''"
    by (auto simp: checked_requirements_nonzero fmt_5_6)
  have "rank [f1, f2, f3, f4, f5, f6, g] = [g, f4, f5, f2, f3, f6, f1]"
    unfolding rk by (simp add: r1 r2 r3 r4 r5 r6 rank_def py_sorted_def)
  with fl e7 g tf r1 r2 r3 r4 r5 r6
  show "\<exists>f1 f2 f3 f4 f5 f6 g s'.
      functions_list 10000000 64 4 2700 20 2 64 0 hardware_checker_module
        = (Inr [f1, f2, f3, f4, f5, f6, g], s')
    \<and> estimate_gpu_vram_recommendations 10000000 0 = Inr g
    \<and> ratio g = 0 \<and> mark g = cross_mark \<and> target_fmt g = ''0.83''
    \<and> map ratio [f1, f2, f3, f4, f5, f6] = [16 / 5, 4 / 5, 189 / 125, 1 / 5, 2 / 3, 8 / 5]
    \<and> rank [f1, f2, f3, f4, f5, f6, g] = [g, f4, f5, f2, f3, f6, f1]"
    by simp
next
  have p: "(0::real) < 10000000" "(0::real) < 20" "(0::real) < 4" "(0::real) \<le> 0"
    "(0::real) \<le> 2700" "(0::real) \<le> 2" "(0::real) \<le> 64"
    by simp_all
  from gpu_zero_vram_lowest_ratio [OF p, of hardware_checker_module]
  obtain f1 f2 f3 f4 f5 f6 g s' where
    e1: "estimate_bottleneck_ram_capacity 10000000 0 = Inr f1"
    and e2: "estimate_bottleneck_ram_channels 20 4 = Inr f2"
    and e3: "estimate_bottleneck_ram_bandwidth 20 2700 4 = Inr f3"
    and e4: "estimate_bottleneck_cpu_count 10000000 20 hardware_checker_module = (Inr f4, s')"
    and e5: "estimate_bottleneck_cpu_speed 2 = Inr f5"
    and e6: "estimate_bottleneck_cpu_l3_cache 20 64 = Inr f6"
    and g: "ratio g = 0"
    and fl: "functions_list 10000000 0 4 2700 20 2 64 0 hardware_checker_module
             = (Inr [f1, f2, f3, f4, f5, f6, g], s')"
    and rk: "rank [f1, f2, f3, f4, f5, f6, g]
             = filter (\<lambda>f. ratio f = 0) [f1, f2, f3, f4, f5, f6]
               @ g # rank (filter (\<lambda>f. 0 < ratio f) [f1, f2, f3, f4, f5, f6])"
    by blast
  from e1 have r1: "ratio f1 = 0" by (auto simp: ram_capacity_nonzero)
  from e2 have r2: "ratio f2 = 4 / 5" by (auto simp: ram_channels_nonzero)
  from e3 have r3: "ratio f3 = 189 / 125" by (auto simp: ram_bandwidth_nonzero)
  from e4 have r4: "ratio f4 = 1 / 5" by (auto simp: cpu_count_nonzero)
  from e5 have r5: "ratio f5 = 2 / 3" by (auto simp: cpu_speed_eq)
  from e6 have r6: "ratio f6 = 8 / 5" by (auto simp: cpu_l3_cache_nonzero)
  have "rank [f1, f2, f3, f4, f5, f6, g] = [f1, g, f4, f5, f2, f3, f6]"
    unfolding rk by (simp add: r1 r2 r3 r4 r5 r6 rank_def py_sorted_def)
  with fl g r1 r2 r3 r4 r5 r6
  show "\<exists>f1 f2 f3 f4 f5 f6 g s'.
      functions_list 10000000 0 4 2700 20 2 64 0 hardware_checker_module
        = (Inr [f1, f2, f3, f4, f5, f6, g], s')
    \<and> map ratio [f1, f2, f3, f4, f5, f6, g] = [0, 4 / 5, 189 / 125, 1 / 5, 2 / 3, 8 / 5, 0]
    \<and> rank [f1, f2, f3, f4, f5, f6, g] = [f1, g, f4, f5, f2, f3, f6]"
    by simp
qed

subsection \<open>The RAM-bandwidth estimator\<close>

text \<open>
  C8. For every positive core count, channel count and RAM speed (and processor count, in
  \<^verbatim>\<open>ofhc.py\<close>), the bandwidth estimator returns a result whose ratio is
  (channels * speed * 1e6 * 8 / 1e9 * 0.7) / (total cores * 2). For 4 channels, 2700 MT/s
  and 20 cores it scores 60.48 against 40: the ratio is 1.512 and the mark the pass mark.
\<close>

theorem ram_bandwidth_ratio:
  assumes "0 < cores" and "0 < channels" and "0 < mts" and "0 < procs"
  shows "(\<exists>f. estimate_bottleneck_ram_bandwidth cores mts channels = Inr f
             \<and> ratio f = (channels * mts * 1000000 * 8 / 1000000000 * (7 / 10)) / (cores * 2))
       \<and> (\<exists>f. ofhc_estimate_bottleneck_ram_bandwidth procs cores mts channels = Inr f
             \<and> ratio f = (channels * mts * 1000000 * 8 / 1000000000 * (7 / 10))
                          / (procs * cores * 2))
       \<and> estimate_bottleneck_ram_bandwidth 20 2700 4
           = checked_requirements ''RAM Bandwidth (GB/s)'' (6048 / 100) 40
       \<and> ofhc_estimate_bottleneck_ram_bandwidth 2 10 2700 4
           = checked_requirements ''RAM Bandwidth (GB/s)'' (6048 / 100) 40
       \<and> (\<exists>f. checked_requirements ''RAM Bandwidth (GB/s)'' (6048 / 100) 40 = Inr f
             \<and> ratio f = 1512 / 1000 \<and> mark f = check_mark)"
proof (intro conjI)
  from assms have nz: "cores \<noteq> 0" "procs \<noteq> 0" by simp_all
  show "\<exists>f. estimate_bottleneck_ram_bandwidth cores mts channels = Inr f
             \<and> ratio f = (channels * mts * 1000000 * 8 / 1000000000 * (7 / 10)) / (cores * 2)"
    by (simp add: ram_bandwidth_nonzero [OF nz(1)])
  show "\<exists>f. ofhc_estimate_bottleneck_ram_bandwidth procs cores mts channels = Inr f
             \<and> ratio f = (channels * mts * 1000000 * 8 / 1000000000 * (7 / 10))
                          / (procs * cores * 2)"
    by (simp add: ofhc_ram_bandwidth_nonzero [OF nz])
  show "estimate_bottleneck_ram_bandwidth 20 2700 4
           = checked_requirements ''RAM Bandwidth (GB/s)'' (6048 / 100) 40"
    by (simp add: estimate_bottleneck_ram_bandwidth_def)
  show "ofhc_estimate_bottleneck_ram_bandwidth 2 10 2700 4
           = checked_requirements ''RAM Bandwidth (GB/s)'' (6048 / 100) 40"
    by (simp add: ofhc_estimate_bottleneck_ram_bandwidth_def)
  show "\<exists>f. checked_requirements ''RAM Bandwidth (GB/s)'' (6048 / 100) 40 = Inr f
             \<and> ratio f = 1512 / 1000 \<and> mark f = check_mark"
    by (simp add: checked_requirements_nonzero)
qed

theorem ram_bandwidth_ratio_witness:
  "\<exists>f g. estimate_bottleneck_ram_bandwidth 20 2133 4 = Inr f \<and> ratio f = 14931 / 12500
        \<and> ofhc_estimate_bottleneck_ram_bandwidth 2 10 2133 4 = Inr g \<and> ratio g = 14931 / 12500"
  using ram_bandwidth_ratio [of 20 4 2133 1] ram_bandwidth_ratio [of 10 4 2133 2]
  by auto

subsection \<open>Scaling with the cell count\<close>

text \<open>
  C9. In a profile with positive cell, core and channel counts and no negative capacity or
  speed, the seven estimators return for the cell count and for its double, and each of
  the seven ratios for the doubled count is at most the ratio for the original count.
\<close>

theorem doubling_cells_never_raises_a_ratio:
  assumes "0 < cells" and "0 < cores" and "0 < channels"
    and "0 \<le> ram_gb" and "0 \<le> mts" and "0 \<le> ghz" and "0 \<le> l3" and "0 \<le> vram"
  shows "\<exists>fs fs' s1 s2.
           functions_list cells ram_gb channels mts cores ghz l3 vram s = (Inr fs, s1)
         \<and> functions_list (2 * cells) ram_gb channels mts cores ghz l3 vram s = (Inr fs', s2)
         \<and> length fs = 7
         \<and> list_all2 (\<lambda>f f'. title f' = title f \<and> ratio f' \<le> ratio f) fs fs'"
proof -
  from assms have nz: "cells \<noteq> 0" "channels \<noteq> 0" "cores \<noteq> 0" by simp_all
  from assms have nz2: "2 * cells \<noteq> 0" by simp
  note one = functions_list_nonzero [OF nz, of ram_gb mts ghz l3 vram s]
  note two = functions_list_nonzero [OF nz2 nz(2) nz(3), of ram_gb mts ghz l3 vram s]
  have half: "a / (2 * cells / k * c) \<le> a / (cells / k * c)" if "0 \<le> a" "0 < k" "0 < c" for a k c :: real
  proof -
    from that assms(1) have pos: "0 < cells / k * c" by simp
    have le: "cells / k * c \<le> 2 * cells / k * c"
      using that assms(1) by (simp add: field_simps)
    show ?thesis by (rule frac_le [OF that(1) order_refl pos le])
  qed
  have r1: "ram_gb / (2 * cells / 1000000 * 2) \<le> ram_gb / (cells / 1000000 * 2)"
    using half [of ram_gb 1000000 2] assms by simp
  have r4: "cores / (2 * cells / 100000) \<le> cores / (cells / 100000)"
    using half [of cores 100000 1] assms by simp
  have r7: "vram / (2 * cells / 1000000 * (1 / 12)) \<le> vram / (cells / 1000000 * (1 / 12))"
    using half [of vram 1000000 "1 / 12"] assms by simp
  have "list_all2 (\<lambda>f f'. title f' = title f \<and> ratio f' \<le> ratio f)
          (results cells ram_gb channels mts cores ghz l3 vram)
          (results (2 * cells) ram_gb channels mts cores ghz l3 vram)"
    using r1 r4 r7 by simp
  with one two show ?thesis by fastforce
qed

theorem doubling_cells_never_raises_a_ratio_witness:
  "\<exists>fs fs' s1 s2.
      functions_list 10000000 64 4 2700 20 2 64 0 hardware_checker_module = (Inr fs, s1)
    \<and> functions_list 20000000 64 4 2700 20 2 64 0 hardware_checker_module = (Inr fs', s2)
    \<and> length fs = 7
    \<and> list_all2 (\<lambda>f f'. title f' = title f \<and> ratio f' \<le> ratio f) fs fs'"
  using doubling_cells_never_raises_a_ratio [of 10000000 20 4 64 2700 2 64 0 hardware_checker_module]
  by simp

subsection \<open>Determinism\<close>

text \<open>
  C10. For all arguments, the outcome of \<^verbatim>\<open>estimate_cfd_requirements\<close>, the lines it
  prints and the ranked list it prints them from are the same in every process state; the
  call leaves the state as it was but for these lines, appended to the standard output.
  Module globals are neither read nor written. This holds for both variants.
\<close>

theorem evaluation_depends_on_arguments_only:
  "(\<exists>outcome out. \<forall>s.
       estimate_cfd_requirements cells ram_gb channels mts cores ghz l3 vram s
         = (outcome, s\<lparr>stdout := stdout s @ out\<rparr>))
   \<and> (\<exists>ranked. \<forall>s.
       map_sum id rank (fst (functions_list cells ram_gb channels mts cores ghz l3 vram s)) = ranked)
   \<and> (\<exists>outcome out. \<forall>s.
       ofhc_estimate_cfd_requirements cells ram_gb channels mts procs cores ghz l3 vram s
         = (outcome, s\<lparr>stdout := stdout s @ out\<rparr>))
   \<and> (\<exists>ranked. \<forall>s.
       map_sum id rank
         (fst (ofhc_functions_list cells ram_gb channels mts procs cores ghz l3 vram s)) = ranked)"
proof (intro conjI)
  show "\<exists>outcome out. \<forall>s.
       estimate_cfd_requirements cells ram_gb channels mts cores ghz l3 vram s
         = (outcome, s\<lparr>stdout := stdout s @ out\<rparr>)"
  proof (cases "cells = 0 \<or> channels = 0 \<or> cores = 0")
    case True
    have "\<forall>s. estimate_cfd_requirements cells ram_gb channels mts cores ghz l3 vram s
         = (Inl ZeroDivisionError, s\<lparr>stdout := stdout s @ []\<rparr>)"
      by (simp add: estimate_cfd_requirements_zero [OF True])
    then show ?thesis by blast
  next
    case False
    then have nz: "cells \<noteq> 0" "channels \<noteq> 0" "cores \<noteq> 0" by simp_all
    have "\<forall>s. estimate_cfd_requirements cells ram_gb channels mts cores ghz l3 vram s
         = (Inr (), s\<lparr>stdout := stdout s @ (advice cells cores
              @ map row (rank (results cells ram_gb channels mts cores ghz l3 vram)))\<rparr>)"
      by (simp only: estimate_cfd_requirements_nonzero [OF nz]) simp
    then show ?thesis by blast
  qed
  show "\<exists>ranked. \<forall>s.
       map_sum id rank (fst (functions_list cells ram_gb channels mts cores ghz l3 vram s)) = ranked"
  proof (cases "cells = 0 \<or> channels = 0 \<or> cores = 0")
    case True
    show ?thesis by (simp add: functions_list_zero [OF True])
  next
    case False
    then have nz: "cells \<noteq> 0" "channels \<noteq> 0" "cores \<noteq> 0" by simp_all
    show ?thesis by (simp add: functions_list_nonzero [OF nz])
  qed
  show "\<exists>outcome out. \<forall>s.
       ofhc_estimate_cfd_requirements cells ram_gb channels mts procs cores ghz l3 vram s
         = (outcome, s\<lparr>stdout := stdout s @ out\<rparr>)"
  proof (cases "cells = 0 \<or> procs = 0 \<or> cores = 0")
    case True
    have "\<forall>s. ofhc_estimate_cfd_requirements cells ram_gb channels mts procs cores ghz l3 vram s
         = (Inl ZeroDivisionError, s\<lparr>stdout := stdout s @ []\<rparr>)"
      by (simp add: ofhc_estimate_cfd_requirements_zero [OF True])
    then show ?thesis by blast
  next
    case False
    then have nz: "cells \<noteq> 0" "procs \<noteq> 0" "cores \<noteq> 0" by simp_all
    have "\<forall>s. ofhc_estimate_cfd_requirements cells ram_gb channels mts procs cores ghz l3 vram s
         = (Inr (), s\<lparr>stdout := stdout s @ (advice cells (cores * procs)
              @ map row (rank (ofhc_results cells ram_gb channels mts procs cores ghz l3 vram)))\<rparr>)"
      by (simp only: ofhc_estimate_cfd_requirements_nonzero [OF nz]) simp
    then show ?thesis by blast
  qed
  show "\<exists>ranked. \<forall>s.
       map_sum id rank
         (fst (ofhc_functions_list cells ram_gb channels mts procs cores ghz l3 vram s)) = ranked"
  proof (cases "cells = 0 \<or> procs = 0 \<or> cores = 0")
    case True
    show ?thesis by (simp add: ofhc_functions_list_zero [OF True])
  next
    case False
    then have nz: "cells \<noteq> 0" "procs \<noteq> 0" "cores \<noteq> 0" by simp_all
    show ?thesis by (simp add: ofhc_functions_list_nonzero [OF nz])
  qed
qed

end
